theory Spec2Isabelle
  imports Complex_Main "HOL-Library.Word"
begin

section \<open>Rasters and Python errors\<close>

text \<open>
  A raster is a two-dimensional numpy array in row-major order: a list of rows. The
  element type is \<open>8 word\<close> for the water mask (uint8) and \<open>16 word\<close> for the elevation
  data (uint16). A numpy array is always rectangular; \<open>rect r R C\<close> says that \<open>r\<close> has
  \<open>R\<close> rows of \<open>C\<close> samples each.
\<close>

type_synonym 'a raster = "'a list list"

datatype error =
    ValueError
  | IndexError
  | AttributeError
  | OverflowError
  | ZeroDivisionError
  | TypeError
  | FileNotFoundError
  | SameFileError
  | Cv2Error

definition rect :: "'a raster \<Rightarrow> nat \<Rightarrow> nat \<Rightarrow> bool" where
  "rect r R C \<longleftrightarrow> length r = R \<and> list_all (\<lambda>row. length row = C) r"

definition n_rows :: "'a raster \<Rightarrow> nat" where
  "n_rows r = length r"

definition n_cols :: "'a raster \<Rightarrow> nat" where
  "n_cols r = (case r of [] \<Rightarrow> 0 | row # _ \<Rightarrow> length row)"

definition same_shape :: "'a raster \<Rightarrow> 'b raster \<Rightarrow> bool" where
  "same_shape a b \<longleftrightarrow> map length a = map length b"

section \<open>Grid triangulation of \<open>plane_from_np\<close>\<close>

text \<open>
  \<open>dem_data.max()\<close>: the largest sample; numpy raises ValueError on an array without
  elements, which \<open>invert_heights\<close> makes explicit.
\<close>

definition raster_max :: "'a::len word raster \<Rightarrow> 'a word" where
  "raster_max r = fold max (concat r) 0"

text \<open>\<open>dem_data = dem_data.max() - dem_data\<close>, in the raster's own unsigned type.\<close>

definition invert_heights :: "'a::len word raster \<Rightarrow> error + 'a word raster" where
  "invert_heights r =
     (if concat r = [] then Inl ValueError
      else Inr (map (map (\<lambda>v. raster_max r - v)) r))"

text \<open>
  \<open>np.column_stack([x.ravel(), y.ravel(), z.ravel()])\<close> where \<open>x, y\<close> is the mesh grid of
  the column and row numbers: vertex number \<open>i * cols + j\<close> is \<open>(j, i, z[i, j])\<close>.
\<close>

definition grid_vertices :: "nat \<Rightarrow> nat \<Rightarrow> 'a::len word raster \<Rightarrow> (nat \<times> nat \<times> nat) list" where
  "grid_vertices rows cols z =
     concat (map (\<lambda>i. map (\<lambda>j. (j, i, unat (z ! i ! j))) [0..<cols]) [0..<rows])"

text \<open>The body of the inner loop: the faces appended for the cell at row \<open>i\<close>, column \<open>j\<close>.\<close>

definition cell_skipped :: "'a::len word raster \<Rightarrow> 'a word \<Rightarrow> bool \<Rightarrow> nat \<Rightarrow> nat \<Rightarrow> bool" where
  "cell_skipped z ground include_zeros i j \<longleftrightarrow>
     ground \<in> set [z ! i ! j, z ! i ! (j + 1), z ! (i + 1) ! j, z ! (i + 1) ! (j + 1)]
     \<and> \<not> include_zeros"

definition cell_faces :: "nat \<Rightarrow> 'a::len word raster \<Rightarrow> 'a word \<Rightarrow> bool \<Rightarrow> nat \<Rightarrow> nat \<Rightarrow> nat list list" where
  "cell_faces cols z ground include_zeros i j =
     (let top_left = i * cols + j;
          top_right = top_left + 1;
          bottom_left = top_left + cols;
          bottom_right = bottom_left + 1
      in if cell_skipped z ground include_zeros i j then []
         else [[top_left, bottom_left, bottom_right], [top_left, bottom_right, top_right]])"

text \<open>The two nested loops over \<open>range(rows - 1)\<close> and \<open>range(cols - 1)\<close>.\<close>

definition grid_faces :: "nat \<Rightarrow> nat \<Rightarrow> 'a::len word raster \<Rightarrow> 'a word \<Rightarrow> bool \<Rightarrow> nat list list" where
  "grid_faces rows cols z ground include_zeros =
     concat (map (\<lambda>i. concat (map (\<lambda>j. cell_faces cols z ground include_zeros i j) [0..<cols - 1]))
                 [0..<rows - 1])"

definition grid_skipped :: "nat \<Rightarrow> nat \<Rightarrow> 'a::len word raster \<Rightarrow> 'a word \<Rightarrow> bool \<Rightarrow> nat" where
  "grid_skipped rows cols z ground include_zeros =
     length (filter (\<lambda>(i, j). cell_skipped z ground include_zeros i j)
               (List.product [0..<rows - 1] [0..<cols - 1]))"

record grid_mesh =
  vertices :: "(nat \<times> nat \<times> nat) list"
  faces :: "nat list list"
  skipped :: nat

text \<open>
  Lines 258 to 300 of \<open>plane_from_np\<close>: inversion, ground level, vertices and faces, from
  the raster as it is after the downscale and the optional removal of the centre.
\<close>

definition triangulate :: "'a::len word raster \<Rightarrow> bool \<Rightarrow> error + grid_mesh" where
  "triangulate dem_data include_zeros =
     (case invert_heights dem_data of
        Inl e \<Rightarrow> Inl e
      | Inr z \<Rightarrow>
          (let rows = n_rows z; cols = n_cols z; ground = raster_max z
           in Inr \<lparr> vertices = grid_vertices rows cols z,
                    faces = grid_faces rows cols z ground include_zeros,
                    skipped = grid_skipped rows cols z ground include_zeros \<rparr>))"

section \<open>Morphology: \<open>cv2.erode\<close> and \<open>cv2.dilate\<close> with a full square kernel\<close>

text \<open>
  The kernel \<open>np.ones((ksize, ksize))\<close> is anchored at its centre, so the pixels under it
  at \<open>(i, j)\<close> are those at distance at most \<open>ksize div 2\<close> in each direction. OpenCV's
  default border for morphology is a constant that never wins: the largest value for
  an erosion, the smallest for a dilation. So the minimum (maximum) is taken over the
  pixels of the window that lie inside the image.
\<close>

definition window :: "nat \<Rightarrow> nat \<Rightarrow> nat \<Rightarrow> nat \<Rightarrow> nat \<Rightarrow> (nat \<times> nat) list" where
  "window k rows cols i j =
     List.product [i - k..<min rows (i + k + 1)] [j - k..<min cols (j + k + 1)]"

definition erode_once :: "nat \<Rightarrow> 'a::len word raster \<Rightarrow> 'a word raster" where
  "erode_once ksize img =
     (let rows = n_rows img; cols = n_cols img
      in map (\<lambda>i. map (\<lambda>j. fold min (map (\<lambda>(a, b). img ! a ! b)
                                         (window (ksize div 2) rows cols i j)) (- 1))
                      [0..<cols])
             [0..<rows])"

definition dilate_once :: "nat \<Rightarrow> 'a::len word raster \<Rightarrow> 'a word raster" where
  "dilate_once ksize img =
     (let rows = n_rows img; cols = n_cols img
      in map (\<lambda>i. map (\<lambda>j. fold max (map (\<lambda>(a, b). img ! a ! b)
                                         (window (ksize div 2) rows cols i j)) 0)
                      [0..<cols])
             [0..<rows])"

definition cv2_erode :: "'a::len word raster \<Rightarrow> nat \<Rightarrow> nat \<Rightarrow> 'a word raster" where
  "cv2_erode img ksize iterations = (erode_once ksize ^^ iterations) img"

definition cv2_dilate :: "'a::len word raster \<Rightarrow> nat \<Rightarrow> nat \<Rightarrow> 'a word raster" where
  "cv2_dilate img ksize iterations = (dilate_once ksize ^^ iterations) img"

section \<open>Pixel-wise numpy and OpenCV operations\<close>

text \<open>\<open>image == v\<close>, \<open>image > 0\<close>, \<open>mask.astype(np.uint8)\<close> and \<open>.astype(bool)\<close>.\<close>

definition eq_scalar :: "'a raster \<Rightarrow> 'a \<Rightarrow> bool raster" where
  "eq_scalar img v = map (map (\<lambda>x. x = v)) img"

definition gt_zero :: "'a::len word raster \<Rightarrow> bool raster" where
  "gt_zero img = map (map (\<lambda>x. 0 < x)) img"

definition bool_to_u8 :: "bool raster \<Rightarrow> 8 word raster" where
  "bool_to_u8 msk = map (map (\<lambda>b. if b then 1 else 0)) msk"

definition astype_bool :: "'a::len word raster \<Rightarrow> bool raster" where
  "astype_bool img = map (map (\<lambda>x. x \<noteq> 0)) img"

text \<open>
  \<open>cv2.add\<close> on two 8-bit images: the sum saturates at 255. OpenCV refuses operands of
  different sizes.
\<close>

definition saturate_add :: "8 word \<Rightarrow> 8 word \<Rightarrow> 8 word" where
  "saturate_add a b = (if 255 < unat a + unat b then 255 else a + b)"

definition cv2_add :: "8 word raster \<Rightarrow> 8 word raster \<Rightarrow> error + 8 word raster" where
  "cv2_add a b =
     (if same_shape a b then Inr (map2 (map2 saturate_add) a b) else Inl Cv2Error)"

text \<open>
  \<open>dem_image[mask] = dem_image[mask] - water_depth\<close>. The boolean index must have the
  shape of the array (IndexError otherwise). \<open>water_depth\<close> is a Python integer; numpy
  (version 2 and later) converts it to the array's uint16 and raises OverflowError when it
  does not fit; the subtraction itself is done in uint16 and wraps around.
\<close>

definition subtract_where :: "bool raster \<Rightarrow> 16 word raster \<Rightarrow> int \<Rightarrow> error + 16 word raster" where
  "subtract_where msk dem_image water_depth =
     (if \<not> same_shape msk dem_image then Inl IndexError
      else if water_depth < 0 \<or> 65535 < water_depth then Inl OverflowError
      else Inr (map2 (map2 (\<lambda>m v. if m then v - word_of_int water_depth else v))
                  msk dem_image))"

text \<open>\<open>array[mask] = 0\<close> and \<open>np.where(mask, a, b)\<close>.\<close>

definition zero_where :: "bool raster \<Rightarrow> 'a::zero raster \<Rightarrow> error + 'a raster" where
  "zero_where msk img =
     (if \<not> same_shape msk img then Inl IndexError
      else Inr (map2 (map2 (\<lambda>m v. if m then 0 else v)) msk img))"

definition np_where :: "bool raster \<Rightarrow> 'a raster \<Rightarrow> 'a raster \<Rightarrow> 'a raster" where
  "np_where msk a b = map2 (\<lambda>m (ra, rb). map2 (\<lambda>c (x, y). if c then x else y) m (zip ra rb))
                         msk (zip a b)"

text \<open>Lines 560 to 570 of \<open>generate_water_resources_obj\<close>: the raster of the elevated water.\<close>

definition elevated_water_input :: "8 word raster \<Rightarrow> 16 word raster \<Rightarrow> error + 16 word raster" where
  "elevated_water_input plane_water not_substracted =
     (case zero_where (eq_scalar plane_water 0) not_substracted of
        Inl e \<Rightarrow> Inl e
      | Inr background_dem \<Rightarrow>
          (let elevated_water = cv2_dilate background_dem 3 10;
               msk = gt_zero background_dem
           in Inr (np_where msk background_dem elevated_water)))"

section \<open>The component: configuration, files and log\<close>

type_synonym path = string

datatype level = DEBUG | WARNING

record layer =
  layer_name :: string
  layer_background :: bool
  layer_count :: "nat option"

text \<open>
  What the methods read and change: the files (the JSON texture schema, 8-bit and 16-bit
  single-channel images, exported meshes), the two attributes set while processing and
  the messages given to the logger. Images are stored with the sample type they are
  written with: masks and texture layers are 8-bit, elevation rasters 16-bit.
\<close>

record 'm state =
  schemas :: "path \<rightharpoonup> layer list"
  rasters8 :: "path \<rightharpoonup> 8 word raster"
  rasters16 :: "path \<rightharpoonup> 16 word raster"
  meshes :: "path \<rightharpoonup> 'm"
  water_resources_path :: "path option"
  stl_preview_path :: "path option"
  logged :: "(level \<times> string) list"

text \<open>
  The attributes of the component and of its map and game that the methods read.
  \<open>z_scaling_factor\<close> is the value of \<open>get_z_scaling_factor()\<close> and \<open>main_dem_path\<close> that of
  \<open>game.dem_file_path(map_directory)\<close>; \<open>output_path\<close> is also the path of the DEM
  (\<open>self.dem.set_dem_path(self.output_path)\<close> in \<open>preprocess\<close>).
\<close>

record config =
  map_size :: nat
  background_size :: nat
  custom_background_path :: "path option"
  water_depth :: int
  additional_dem_name :: "string option"
  generate_background :: bool
  generate_water :: bool
  remove_center_setting :: bool
  resize_factor :: int
  apply_decimation :: bool
  decimation_percent :: int
  decimation_agression :: int
  z_scaling_factor :: rat
  texture_schema :: path
  output_path :: path
  not_substracted_path :: path
  not_resized_path :: path
  main_dem_path :: path
  background_directory :: path
  water_directory :: path
  previews_directory :: path

definition dem_path :: "config \<Rightarrow> path" where
  "dem_path cfg = output_path cfg"

text \<open>
  The libraries and the other components, as parameters. \<open>cv2.resize\<close> (always with its
  default linear interpolation here) is given either the size of the result
  (\<open>Dsize width height\<close>) or the two factors. The mesh type \<open>'m\<close> is trimesh's; its
  operations are taken to return.
\<close>

datatype dsize = Dsize nat nat | Factors rat rat

datatype transform = RotationMatrixPi "int \<times> int \<times> int"

record 'm externals =
  dem_process :: "'m state \<Rightarrow> error + 'm state"
  texture_process :: "layer list \<Rightarrow> 'm state \<Rightarrow> error + ('m state \<times> path list)"
  resize8 :: "8 word raster \<Rightarrow> dsize \<Rightarrow> error + 8 word raster"
  resize16 :: "16 word raster \<Rightarrow> dsize \<Rightarrow> error + 16 word raster"
  Trimesh :: "grid_mesh \<Rightarrow> 'm"
  apply_transform :: "transform \<Rightarrow> 'm \<Rightarrow> 'm"
  apply_scale :: "rat \<times> rat \<times> rat \<Rightarrow> 'm \<Rightarrow> 'm"
  simplify_percent :: "rat \<Rightarrow> int \<Rightarrow> 'm \<Rightarrow> 'm"
  simplify_face_count :: "nat \<Rightarrow> 'm \<Rightarrow> 'm"
  face_count :: "'m \<Rightarrow> nat"

definition and_then :: "error + 'a \<Rightarrow> ('a \<Rightarrow> error + 'b) \<Rightarrow> error + 'b" where
  "and_then r f = (case r of Inl e \<Rightarrow> Inl e | Inr x \<Rightarrow> f x)"

definition logger :: "level \<Rightarrow> string \<Rightarrow> 'm state \<Rightarrow> 'm state" where
  "logger lvl msg s = s\<lparr>logged := logged s @ [(lvl, msg)]\<rparr>"

text \<open>\<open>os.path.join\<close> of two components, \<open>os.path.dirname\<close> and \<open>os.path.splitext\<close> of
  \<open>os.path.basename\<close>, for POSIX paths.\<close>

definition path_join :: "path \<Rightarrow> path \<Rightarrow> path" where
  "path_join a b =
     (if b \<noteq> [] \<and> hd b = CHR ''/'' then b
      else if a = [] \<or> last a = CHR ''/'' then a @ b
      else a @ ''/'' @ b)"

definition dirname :: "path \<Rightarrow> path" where
  "dirname p =
     (let head = rev (dropWhile (\<lambda>c. c \<noteq> CHR ''/'') (rev p))
      in if head \<noteq> [] \<and> \<not> list_all (\<lambda>c. c = CHR ''/'') head
         then rev (dropWhile (\<lambda>c. c = CHR ''/'') (rev head))
         else head)"

definition basename :: "path \<Rightarrow> path" where
  "basename p = rev (takeWhile (\<lambda>c. c \<noteq> CHR ''/'') (rev p))"

definition splitext_root :: "path \<Rightarrow> path" where
  "splitext_root b =
     (let ext = takeWhile (\<lambda>c. c \<noteq> CHR ''.'') (rev b);
          root = drop (length ext + 1) (rev b)
      in if length ext < length b \<and> \<not> list_all (\<lambda>c. c = CHR ''.'') root
         then rev root else b)"

text \<open>
  \<open>cv2.imwrite\<close> of an image (OpenCV refuses an image without pixels) and
  \<open>shutil.copyfile\<close> of an elevation raster (a missing source raises, and so does copying a file onto itself).
\<close>

definition imwrite8 :: "path \<Rightarrow> 8 word raster \<Rightarrow> 'm state \<Rightarrow> error + 'm state" where
  "imwrite8 p img s =
     (if concat img = [] then Inl Cv2Error else Inr (s\<lparr>rasters8 := (rasters8 s)(p \<mapsto> img)\<rparr>))"

definition imwrite16 :: "path \<Rightarrow> 16 word raster \<Rightarrow> 'm state \<Rightarrow> error + 'm state" where
  "imwrite16 p img s =
     (if concat img = [] then Inl Cv2Error else Inr (s\<lparr>rasters16 := (rasters16 s)(p \<mapsto> img)\<rparr>))"

definition copyfile :: "path \<Rightarrow> path \<Rightarrow> 'm state \<Rightarrow> error + 'm state" where
  "copyfile src dst s =
     (case rasters16 s src of
        None \<Rightarrow> Inl FileNotFoundError
      | Some img \<Rightarrow>
          if src = dst then Inl SameFileError
          else Inr (s\<lparr>rasters16 := (rasters16 s)(dst \<mapsto> img)\<rparr>))"

text \<open>Python's truth value of an optional path: \<open>None\<close> and the empty string are false.\<close>

definition truthy :: "path option \<Rightarrow> bool" where
  "truthy p \<longleftrightarrow> p \<noteq> None \<and> p \<noteq> Some []"

section \<open>The raster cutout utility\<close>

text \<open>
  Modelled from the spec: \<open>cut_out_np\<close> is defined in the image base component, which is
  not among the sources here. The specification's contract for it (section 4.1): it
  computes the raster's centre pixel and extracts, or overwrites with 0, the square of
  side \<open>2 * half_size\<close> centred there; it fails if \<open>half_size\<close> exceeds the raster's
  bounds after centring; \<open>return_cutout\<close> returns the extracted square, \<open>set_zeros\<close> the
  whole raster with the square zeroed.
\<close>

definition cut_out_np :: "'a::zero raster \<Rightarrow> nat \<Rightarrow> bool \<Rightarrow> bool \<Rightarrow> error + 'a raster" where
  "cut_out_np img half_size set_zeros return_cutout =
     (let cr = n_rows img div 2; cc = n_cols img div 2;
          x1 = cr - half_size; x2 = cr + half_size;
          y1 = cc - half_size; y2 = cc + half_size
      in if cr < half_size \<or> cc < half_size \<or> n_rows img < x2 \<or> n_cols img < y2
         then Inl ValueError
         else if return_cutout
         then Inr (map (\<lambda>row. take (y2 - y1) (drop y1 row)) (take (x2 - x1) (drop x1 img)))
         else if set_zeros
         then Inr (map (\<lambda>i. map (\<lambda>j. if x1 \<le> i \<and> i < x2 \<and> y1 \<le> j \<and> j < y2 then 0
                                       else img ! i ! j)
                              [0..<n_cols img])
                       [0..<n_rows img])
         else Inr img)"

section \<open>The methods of \<open>Background\<close>\<close>

text \<open>The loop of \<open>create_background_textures\<close> that merges the layer images; a layer
  file that cannot be read gives \<open>None\<close>, which \<open>cv2.add\<close> refuses.\<close>

fun merge_layers :: "'m state \<Rightarrow> 8 word raster \<Rightarrow> path list \<Rightarrow> error + 8 word raster" where
  "merge_layers s background_image [] = Inr background_image"
| "merge_layers s background_image (p # paths) =
     (case rasters8 s p of
        None \<Rightarrow> Inl Cv2Error
      | Some background_layer \<Rightarrow>
          and_then (cv2_add background_image background_layer)
            (\<lambda>background_image. merge_layers s background_image paths))"

text \<open>The layers of the schema that are tagged \<open>background\<close>, copied with \<open>count\<close> 1 and
  the suffix \<open>_background\<close> on their name.\<close>

definition background_layers_of :: "layer list \<Rightarrow> layer list" where
  "background_layers_of layers_schema =
     map (\<lambda>l. l\<lparr>layer_count := Some 1, layer_name := layer_name l @ ''_background''\<rparr>)
         (filter layer_background layers_schema)"

definition create_background_textures :: "config \<Rightarrow> 'm externals \<Rightarrow> 'm state \<Rightarrow> error + 'm state" where
  "create_background_textures cfg ext s =
     (case schemas s (texture_schema cfg) of
        None \<Rightarrow> Inr (logger WARNING ''Texture schema file not found: %s'' s)
      | Some layers_schema \<Rightarrow>
          (let background_layers = background_layers_of layers_schema
           in if background_layers = [] then Inr s
              else and_then (texture_process ext background_layers s) (\<lambda>(s, background_paths).
                let s = logger DEBUG ''Found %s background textures.'' s
                in if background_paths = []
                   then Inr (logger WARNING ''No background textures found.'' s)
                   else and_then (merge_layers s
                                    (replicate (background_size cfg)
                                       (replicate (background_size cfg) 0))
                                    background_paths) (\<lambda>background_image.
                     let background_save_path =
                           path_join (water_directory cfg) ''water_resources.png''
                     in and_then (imwrite8 background_save_path background_image s) (\<lambda>s.
                          Inr ((logger DEBUG ''Background texture saved: %s'' s)
                                 \<lparr>water_resources_path := Some background_save_path\<rparr>))))))"

definition subtraction :: "config \<Rightarrow> 'm state \<Rightarrow> error + 'm state" where
  "subtraction cfg s =
     (if \<not> truthy (water_resources_path s)
      then Inr (logger WARNING ''Water resources texture not found.'' s)
      else case rasters8 s (the (water_resources_path s)) of
        None \<Rightarrow> Inl AttributeError
      | Some water_resources_image \<Rightarrow>
          (let msk = eq_scalar water_resources_image 255;
               msk = astype_bool (cv2_erode (bool_to_u8 msk) 3 1)
           in case rasters16 s (output_path cfg) of
                None \<Rightarrow> Inl TypeError
              | Some dem_image \<Rightarrow>
                  and_then (subtract_where msk dem_image (water_depth cfg)) (\<lambda>dem_image.
                  and_then (imwrite16 (output_path cfg) dem_image s) (\<lambda>s.
                    Inr (logger DEBUG ''Water depth subtracted from DEM data: %s'' s)))))"

definition save_map_dem ::
  "config \<Rightarrow> 'm externals \<Rightarrow> path \<Rightarrow> path option \<Rightarrow> 'm state \<Rightarrow> error + ('m state \<times> path)" where
  "save_map_dem cfg ext dem_file save_path s =
     (case rasters16 s dem_file of
        None \<Rightarrow> Inl AttributeError
      | Some dem_data \<Rightarrow>
          (let half_size = map_size cfg div 2
           in and_then (cut_out_np dem_data half_size False True) (\<lambda>dem_data.
                if truthy save_path
                then and_then (imwrite16 (the save_path) dem_data s) (\<lambda>s.
                       Inr (logger DEBUG ''Not resized DEM saved: %s'' s, the save_path))
                else
                  (let output_size = map_size cfg + 1;
                       s = s\<lparr>rasters16 := (rasters16 s)(main_dem_path cfg := None)\<rparr>
                   in and_then (resize16 ext dem_data (Dsize output_size output_size))
                        (\<lambda>resized_dem_data.
                      and_then (imwrite16 (main_dem_path cfg) resized_dem_data s) (\<lambda>s.
                        Inr (logger DEBUG ''DEM cutout saved: %s'' s, main_dem_path cfg)))))))"

definition make_copy :: "path \<Rightarrow> string \<Rightarrow> 'm state \<Rightarrow> error + 'm state" where
  "make_copy dem_file dem_name s =
     (let dem_directory = dirname dem_file;
          additional_dem_path = path_join dem_directory dem_name
      in and_then (copyfile dem_file additional_dem_path s) (\<lambda>s.
           Inr (logger DEBUG ''Additional DEM data was copied to %s.'' s)))"

definition mesh_to_stl :: "config \<Rightarrow> 'm externals \<Rightarrow> 'm \<Rightarrow> 'm state \<Rightarrow> 'm state" where
  "mesh_to_stl cfg ext mesh s =
     (let mesh = simplify_face_count ext (face_count ext mesh div 2 ^ 6) mesh;
          preview_path = path_join (previews_directory cfg) ''background_dem.stl'';
          s = s\<lparr>meshes := (meshes s)(preview_path \<mapsto> mesh)\<rparr>;
          s = logger DEBUG ''STL file saved: %s'' s
      in s\<lparr>stl_preview_path := Some preview_path\<rparr>)"

text \<open>
  \<open>plane_from_np\<close>, for a raster of either sample type, with the \<open>cv2.resize\<close> for that
  type, in three parts. Python's \<open>/\<close> on numbers is modelled by exact division of
  rationals, so \<open>1 / resize_factor\<close> is the reciprocal and raises for 0, and \<open>int(...)\<close>
  of a non-negative number is its floor.

  Lines 248 to 300: the downscale, the removal of the centre and the triangulation.
\<close>

definition plane_grid ::
  "config \<Rightarrow> ('a::len word raster \<Rightarrow> dsize \<Rightarrow> error + 'a word raster)
   \<Rightarrow> 'a word raster \<Rightarrow> bool \<Rightarrow> bool \<Rightarrow> 'm state \<Rightarrow> error + (grid_mesh \<times> 'm state)" where
  "plane_grid cfg resize dem_data include_zeros remove_center s =
     (if resize_factor cfg = 0 then Inl ZeroDivisionError
      else
        let rf = 1 / of_int (resize_factor cfg)
        in and_then (resize dem_data (Factors rf rf)) (\<lambda>dem_data.
           and_then
             (if remove_center
              then let half_size = nat \<lfloor>of_nat (map_size cfg div 2) * rf\<rfloor>
                   in and_then (cut_out_np dem_data half_size True False) (\<lambda>dem_data.
                        Inr (dem_data, logger DEBUG ''Center removed from DEM data.'' s))
              else Inr (dem_data, s)) (\<lambda>(dem_data, s).
           let s = logger DEBUG ''DEM data resized to shape: %s with factor: %s'' s
           in and_then (triangulate dem_data include_zeros) (\<lambda>grid.
           let s = logger DEBUG ''Ground level: %s'' s;
               s = logger DEBUG
                     ''Starting to generate a mesh for with shape: %s x %s. This may take a while.'' s;
               s = logger DEBUG ''Skipped faces: %s'' s
           in Inr (grid, s)))))"

text \<open>
  Lines 301 to 328: the mesh, its two rotations, its scaling and the optional
  decimation. The computation of \<open>decimation_percent\<close> for the log divides by the number
  of faces before the decimation.
\<close>

definition plane_mesh ::
  "config \<Rightarrow> 'm externals \<Rightarrow> grid_mesh \<Rightarrow> 'm state \<Rightarrow> error + ('m \<times> 'm state)" where
  "plane_mesh cfg ext grid s =
     (let rf = 1 / of_int (resize_factor cfg);
          mesh = Trimesh ext grid;
          mesh = apply_transform ext (RotationMatrixPi (0, 1, 0)) mesh;
          mesh = apply_transform ext (RotationMatrixPi (0, 0, 1)) mesh;
          s = logger DEBUG ''Z scaling factor: %s'' s;
          mesh = apply_scale ext (1 / rf, 1 / rf, z_scaling_factor cfg) mesh;
          old_faces = face_count ext mesh;
          s = logger DEBUG ''Mesh generated with %s faces.'' s
      in if apply_decimation cfg
         then let percent = of_int (decimation_percent cfg) / 100;
                  mesh = simplify_percent ext percent (decimation_agression cfg) mesh
              in if old_faces = 0 then Inl ZeroDivisionError
                 else Inr (mesh,
                        logger DEBUG ''Mesh simplified to %s faces. Decimation percent: %s'' s)
         else Inr (mesh, s))"

text \<open>The whole method: lines 330 to 339 export the mesh and then, for a preview, scale
  the mesh and hand it to \<open>mesh_to_stl\<close>.\<close>

definition plane_from_np ::
  "config \<Rightarrow> 'm externals \<Rightarrow> ('a::len word raster \<Rightarrow> dsize \<Rightarrow> error + 'a word raster)
   \<Rightarrow> 'a word raster \<Rightarrow> path \<Rightarrow> bool \<Rightarrow> bool \<Rightarrow> bool \<Rightarrow> 'm state \<Rightarrow> error + 'm state" where
  "plane_from_np cfg ext resize dem_data save_path include_zeros create_preview remove_center s =
     and_then (plane_grid cfg resize dem_data include_zeros remove_center s) (\<lambda>(grid, s).
     and_then (plane_mesh cfg ext grid s) (\<lambda>(mesh, s).
       let s = s\<lparr>meshes := (meshes s)(save_path \<mapsto> mesh)\<rparr>;
           s = logger DEBUG ''Obj file saved: %s'' s
       in if create_preview
          then Inr (mesh_to_stl cfg ext (apply_scale ext (1 / 2, 1 / 2, 1 / 2) mesh) s)
          else Inr s))"

definition generate_obj_files :: "config \<Rightarrow> 'm externals \<Rightarrow> 'm state \<Rightarrow> error + 'm state" where
  "generate_obj_files cfg ext s =
     (case rasters16 s (dem_path cfg) of
        None \<Rightarrow> Inr (logger WARNING ''DEM file not found, generation will be stopped: %s'' s)
      | Some dem_data \<Rightarrow>
          (let s = logger DEBUG ''DEM file for found: %s'' s;
               filename = splitext_root (basename (dem_path cfg));
               save_path = path_join (background_directory cfg) (filename @ ''.obj'');
               s = logger DEBUG ''Generating obj file in path: %s'' s
           in plane_from_np cfg ext (resize16 ext) dem_data save_path
                False True (remove_center_setting cfg) s))"

definition generate_water_resources_obj ::
  "config \<Rightarrow> 'm externals \<Rightarrow> 'm state \<Rightarrow> error + 'm state" where
  "generate_water_resources_obj cfg ext s =
     (if \<not> truthy (water_resources_path s)
      then Inr (logger WARNING ''Water resources texture not found.'' s)
      else case rasters8 s (the (water_resources_path s)) of
        None \<Rightarrow> Inl AttributeError
      | Some plane_water \<Rightarrow>
          (let dilated_plane_water = cv2_dilate plane_water 5 5;
               plane_save_path = path_join (water_directory cfg) ''plane_water.obj''
           in and_then (plane_from_np cfg ext (resize8 ext) dilated_plane_water plane_save_path
                          False False False s) (\<lambda>s.
                case rasters16 s (not_substracted_path cfg) of
                  None \<Rightarrow> Inl TypeError
                | Some background_dem \<Rightarrow>
                    and_then (elevated_water_input plane_water background_dem)
                      (\<lambda>elevated_water.
                    let elevated_save_path = path_join (water_directory cfg) ''elevated_water.obj''
                    in plane_from_np cfg ext (resize16 ext) elevated_water elevated_save_path
                         False False False s))))"

definition process :: "config \<Rightarrow> 'm externals \<Rightarrow> 'm state \<Rightarrow> error + 'm state" where
  "process cfg ext s =
     and_then (create_background_textures cfg ext s) (\<lambda>s.
     and_then (if \<not> truthy (custom_background_path cfg) then dem_process ext s else Inr s) (\<lambda>s.
     and_then (copyfile (dem_path cfg) (not_substracted_path cfg) s) (\<lambda>s.
     and_then (save_map_dem cfg ext (dem_path cfg) (Some (not_resized_path cfg)) s) (\<lambda>(s, _).
     and_then (if water_depth cfg \<noteq> 0 then subtraction cfg s else Inr s) (\<lambda>s.
     and_then (save_map_dem cfg ext (dem_path cfg) None s) (\<lambda>(s, cutted_dem_path).
     and_then (case additional_dem_name cfg of
                 Some dem_name \<Rightarrow> make_copy cutted_dem_path dem_name s
               | None \<Rightarrow> Inr s) (\<lambda>s.
     and_then (if generate_background cfg then generate_obj_files cfg ext s else Inr s) (\<lambda>s.
     if generate_water cfg then generate_water_resources_obj cfg ext s else Inr s))))))))"

section \<open>Notions used to state the properties\<close>

text \<open>
  The pixels that the erosion of \<open>subtraction\<close> keeps: those whose 3 by 3 neighbourhood,
  as far as it lies inside the image, is water (255) in the water mask.
\<close>

definition water_inside :: "8 word raster \<Rightarrow> nat \<Rightarrow> nat \<Rightarrow> nat \<Rightarrow> nat \<Rightarrow> bool" where
  "water_inside img R C i j \<longleftrightarrow> list_all (\<lambda>(a, b). img ! a ! b = 255) (window 1 R C i j)"

text \<open>
  A water mask of \<open>n\<close> by \<open>n\<close> pixels that is 255 on the square of the given side whose
  top left pixel is \<open>(a, b)\<close>, and 0 elsewhere.
\<close>

definition square_mask :: "nat \<Rightarrow> nat \<Rightarrow> nat \<Rightarrow> nat \<Rightarrow> 8 word raster" where
  "square_mask n a b side =
     map (\<lambda>i. map (\<lambda>j. if a \<le> i \<and> i < a + side \<and> b \<le> j \<and> j < b + side then 255 else 0)
                [0..<n])
         [0..<n]"

text \<open>
  A small configuration and the state that \<open>preprocess\<close> leaves (no file yet, both
  attributes \<open>None\<close>, nothing logged), from which the concrete runs below are built.
\<close>

definition example_config :: config where
  "example_config =
     \<lparr> map_size = 2, background_size = 4, custom_background_path = None, water_depth = 0,
       additional_dem_name = None, generate_background = False, generate_water = False,
       remove_center_setting = False, resize_factor = 1, apply_decimation = False,
       decimation_percent = 50, decimation_agression = 3, z_scaling_factor = 1,
       texture_schema = ''texture_schema.json'',
       output_path = ''map/background/FULL.png'',
       not_substracted_path = ''map/background/not_substracted.png'',
       not_resized_path = ''map/background/not_resized.png'',
       main_dem_path = ''map/data/dem.png'',
       background_directory = ''map/background'',
       water_directory = ''map/water'',
       previews_directory = ''map/previews'' \<rparr>"

definition initial_state :: "'m state" where
  "initial_state =
     \<lparr> schemas = Map.empty, rasters8 = Map.empty, rasters16 = Map.empty, meshes = Map.empty,
       water_resources_path = None, stl_preview_path = None, logged = [] \<rparr>"

text \<open>A state that holds a water mask and an elevation raster, as \<open>subtraction\<close> finds them.\<close>

definition water_state :: "config \<Rightarrow> 8 word raster \<Rightarrow> 16 word raster \<Rightarrow> 'm state" where
  "water_state cfg water_resources dem =
     initial_state
       \<lparr> rasters8 := [path_join (water_directory cfg) ''water_resources.png'' \<mapsto> water_resources],
         rasters16 := [output_path cfg \<mapsto> dem],
         water_resources_path := Some (path_join (water_directory cfg) ''water_resources.png'') \<rparr>"

text \<open>The number of marked (non-zero) pixels of a mask.\<close>

definition marked_count :: "8 word raster \<Rightarrow> nat" where
  "marked_count img = length (filter (\<lambda>v. v \<noteq> 0) (concat img))"

text \<open>
  Stand-ins for the libraries and the other components in the concrete runs: a texture
  component that writes the given layer images and returns their paths, a DEM component
  that writes the given elevation raster, a resize that takes the nearest sample, and
  meshes as terms that record the operations applied to them.
\<close>

definition texture_writes ::
  "(path \<times> 8 word raster) list \<Rightarrow> layer list \<Rightarrow> 'm state \<Rightarrow> error + ('m state \<times> path list)" where
  "texture_writes layer_files layers s =
     Inr (s\<lparr>rasters8 := rasters8 s ++ map_of layer_files\<rparr>, map fst layer_files)"

definition dem_writes :: "path \<Rightarrow> 16 word raster \<Rightarrow> 'm state \<Rightarrow> error + 'm state" where
  "dem_writes p dem s = Inr (s\<lparr>rasters16 := (rasters16 s)(p \<mapsto> dem)\<rparr>)"

definition resize_nearest :: "'a raster \<Rightarrow> dsize \<Rightarrow> error + 'a raster" where
  "resize_nearest img d =
     (let R = n_rows img; C = n_cols img;
          w = (case d of Dsize w h \<Rightarrow> w | Factors fx fy \<Rightarrow> nat (round (of_nat C * fx)));
          h = (case d of Dsize w h \<Rightarrow> h | Factors fx fy \<Rightarrow> nat (round (of_nat R * fy)))
      in if R = 0 \<or> C = 0 \<or> w = 0 \<or> h = 0 then Inl Cv2Error
         else Inr (map (\<lambda>i. map (\<lambda>j. img ! (i * R div h) ! (j * C div w)) [0..<w]) [0..<h]))"

datatype mesh_expr =
    Grid grid_mesh
  | Transformed transform mesh_expr
  | Scaled "rat \<times> rat \<times> rat" mesh_expr
  | SimplifiedPercent rat int mesh_expr
  | SimplifiedFaces nat mesh_expr

fun mesh_expr_faces :: "mesh_expr \<Rightarrow> nat" where
  "mesh_expr_faces (Grid g) = length (faces g)"
| "mesh_expr_faces (Transformed t m) = mesh_expr_faces m"
| "mesh_expr_faces (Scaled v m) = mesh_expr_faces m"
| "mesh_expr_faces (SimplifiedPercent p a m) = nat \<lfloor>p * of_nat (mesh_expr_faces m)\<rfloor>"
| "mesh_expr_faces (SimplifiedFaces n m) = min n (mesh_expr_faces m)"

definition example_externals ::
  "path \<Rightarrow> 16 word raster \<Rightarrow> (path \<times> 8 word raster) list \<Rightarrow> mesh_expr externals" where
  "example_externals p dem layer_files =
     \<lparr> dem_process = dem_writes p dem,
       texture_process = texture_writes layer_files,
       resize8 = resize_nearest,
       resize16 = resize_nearest,
       Trimesh = Grid,
       apply_transform = Transformed,
       apply_scale = Scaled,
       simplify_percent = SimplifiedPercent,
       simplify_face_count = SimplifiedFaces,
       face_count = mesh_expr_faces \<rparr>"

text \<open>A state whose only file is a texture schema, and a schema layer tagged \<open>background\<close>.\<close>

definition schema_state :: "config \<Rightarrow> layer list \<Rightarrow> 'm state" where
  "schema_state cfg layers = initial_state\<lparr>schemas := [texture_schema cfg \<mapsto> layers]\<rparr>"

definition water_layer :: layer where
  "water_layer = \<lparr> layer_name = ''water'', layer_background = True, layer_count = None \<rparr>"

text \<open>A step that changes nothing but the log, to which it appends.\<close>

definition only_logs :: "'m state \<Rightarrow> 'm state \<Rightarrow> bool" where
  "only_logs s s' \<longleftrightarrow> (\<exists>more. s' = s\<lparr>logged := logged s @ more\<rparr>)"

text \<open>A step that leaves the 16-bit rasters as they are and only appends to the log
  (whatever it does to the meshes).\<close>

definition keeps_rasters :: "'m state \<Rightarrow> 'm state \<Rightarrow> bool" where
  "keeps_rasters s s' \<longleftrightarrow> rasters16 s' = rasters16 s \<and> (\<exists>more. logged s' = logged s @ more)"

text \<open>
  A complete small run: a 4 by 4 elevation raster around a map of size 2, one background
  layer that marks every pixel as water, a water depth of 50, an additional copy of the
  map's raster and the background mesh.
\<close>

definition example_dem :: "16 word raster" where
  "example_dem =
     [[1000, 1001, 1002, 1003], [1010, 1011, 1012, 1013],
      [1020, 1021, 1022, 1023], [1030, 1031, 1032, 1033]]"

definition water_run_config :: config where
  "water_run_config =
     example_config\<lparr> water_depth := 50,
                      additional_dem_name := Some ''unprocessedHeightMap.png'',
                      generate_background := True \<rparr>"

definition water_run_externals :: "mesh_expr externals" where
  "water_run_externals =
     example_externals (output_path example_config) example_dem
       [(''map/weights/water_background.png'', replicate 4 (replicate 4 255))]"

definition water_run_start :: "mesh_expr state" where
  "water_run_start = schema_state example_config [water_layer]"

text \<open>What a run leaves behind: a file, or the log, of the state a method returns.\<close>

definition raster16_after :: "error + 'm state \<Rightarrow> path \<Rightarrow> error + 16 word raster option" where
  "raster16_after r p = (case r of Inl e \<Rightarrow> Inl e | Inr s \<Rightarrow> Inr (rasters16 s p))"

definition raster8_after :: "error + 'm state \<Rightarrow> path \<Rightarrow> error + 8 word raster option" where
  "raster8_after r p = (case r of Inl e \<Rightarrow> Inl e | Inr s \<Rightarrow> Inr (rasters8 s p))"


definition logged_after :: "error + 'm state \<Rightarrow> error + (level \<times> string) list" where
  "logged_after r = (case r of Inl e \<Rightarrow> Inl e | Inr s \<Rightarrow> Inr (logged s))"

section \<open>Properties of the grid triangulation\<close>








lemma rect_shape: "rect r R C \<Longrightarrow> 0 < R \<Longrightarrow> n_rows r = R \<and> n_cols r = C"
  by (cases r) (auto simp: rect_def n_rows_def n_cols_def)

lemma rect_nonempty: "rect r R C \<Longrightarrow> 0 < R \<Longrightarrow> 0 < C \<Longrightarrow> concat r \<noteq> []"
  by (cases r) (auto simp: rect_def)

lemma rect_map: "rect r R C \<Longrightarrow> rect (map (map f) r) R C"
  by (auto simp: rect_def list_all_iff)




section \<open>Shapes and pixels of rasters\<close>

lemma rect_nth: "rect r R C \<Longrightarrow> i < R \<Longrightarrow> length (r ! i) = C"
  by (auto simp: rect_def list_all_length)

lemma rect_same_shape: "rect a R C \<Longrightarrow> rect b R C \<Longrightarrow> same_shape a b"
  by (auto simp: rect_def same_shape_def list_all_length intro!: nth_equalityI)

lemma same_shape_rect: "same_shape a b \<Longrightarrow> rect a R C \<Longrightarrow> rect b R C"
  unfolding rect_def same_shape_def list_all_length
  by (metis length_map nth_map)

lemma map2_px:
  "rect a R C \<Longrightarrow> rect b R C \<Longrightarrow> i < R \<Longrightarrow> j < C \<Longrightarrow>
     map2 (map2 f) a b ! i ! j = f (a ! i ! j) (b ! i ! j)"
  by (simp add: rect_def list_all_length)

lemma rect_map2: "rect a R C \<Longrightarrow> rect b R C \<Longrightarrow> rect (map2 (map2 f) a b) R C"
  by (simp add: rect_def list_all_length)

lemma mapmap_px:
  "rect a R C \<Longrightarrow> i < R \<Longrightarrow> j < C \<Longrightarrow> map (map f) a ! i ! j = f (a ! i ! j)"
  by (simp add: rect_def list_all_length)

lemma grid_px: "i < R \<Longrightarrow> j < C \<Longrightarrow> map (\<lambda>i. map (f i) [0..<C]) [0..<R] ! i ! j = f i j"
  by simp

lemma rect_grid: "rect (map (\<lambda>i. map (f i) [0..<C]) [0..<R]) R C"
  by (simp add: rect_def list_all_iff)

lemma fold_min_nonzero:
  "fold min xs (m :: 'a::len word) \<noteq> 0 \<longleftrightarrow> m \<noteq> 0 \<and> (\<forall>x \<in> set xs. x \<noteq> 0)"
proof (induction xs arbitrary: m)
  case Nil then show ?case by simp
next
  case (Cons x xs)
  have "min x m \<noteq> 0 \<longleftrightarrow> x \<noteq> 0 \<and> m \<noteq> 0"
    by (metis min_def word_coorder.extremum word_le_0_iff min.commute)
  with Cons show ?case by auto
qed

lemma window_mem:
  "(a, b) \<in> set (window k R C i j) \<longleftrightarrow>
     i - k \<le> a \<and> a < min R (i + k + 1) \<and> j - k \<le> b \<and> b < min C (j + k + 1)"
  by (auto simp: window_def)

lemma erode_once_px:
  assumes "rect img R C" "0 < R" "i < R" "j < C"
  shows "erode_once ksize img ! i ! j =
           fold min (map (\<lambda>(a, b). img ! a ! b) (window (ksize div 2) R C i j)) (- 1)"
  using rect_shape[OF assms(1,2)] assms(3,4) by (simp add: erode_once_def Let_def)

lemma rect_erode_once: "rect img R C \<Longrightarrow> 0 < R \<Longrightarrow> rect (erode_once ksize img) R C"
  using rect_shape[of img R C] rect_grid by (simp add: erode_once_def Let_def)

lemma window_in_range:
  "(a, b) \<in> set (window k R C i j) \<Longrightarrow> a < R \<and> b < C"
  by (simp add: window_mem)

lemma eroded_mask_px:
  assumes r: "rect img R C" and R: "0 < R" and i: "i < R" and j: "j < C"
  shows "astype_bool (cv2_erode (bool_to_u8 (eq_scalar img 255)) 3 1) ! i ! j
           \<longleftrightarrow> water_inside img R C i j"
proof -
  let ?m = "bool_to_u8 (eq_scalar img 255)"
  have rm: "rect ?m R C" unfolding bool_to_u8_def eq_scalar_def using r by (intro rect_map)
  have px: "?m ! a ! b = (if img ! a ! b = 255 then 1 else 0)" if "a < R" "b < C" for a b
    using r that by (simp add: bool_to_u8_def eq_scalar_def rect_def list_all_length)
  have re: "rect (erode_once 3 ?m) R C" by (rule rect_erode_once[OF rm R])
  have "astype_bool (cv2_erode ?m 3 1) ! i ! j \<longleftrightarrow> erode_once 3 ?m ! i ! j \<noteq> 0"
    unfolding astype_bool_def cv2_erode_def using mapmap_px[OF re i j] by simp
  also have "\<dots> \<longleftrightarrow> (\<forall>x \<in> set (map (\<lambda>(a, b). ?m ! a ! b) (window 1 R C i j)). x \<noteq> 0)"
    unfolding erode_once_px[OF rm R i j] fold_min_nonzero by simp
  also have "\<dots> \<longleftrightarrow> (\<forall>(a, b) \<in> set (window 1 R C i j). ?m ! a ! b \<noteq> 0)"
    by auto
  also have "\<dots> \<longleftrightarrow> water_inside img R C i j"
    unfolding water_inside_def list_all_iff using px window_in_range by (auto split: if_splits) 
  finally show ?thesis .
qed

lemma rect_eroded_mask:
  assumes r: "rect img R C" and R: "0 < R"
  shows "rect (astype_bool (cv2_erode (bool_to_u8 (eq_scalar img 255)) 3 1)) R C"
  unfolding astype_bool_def cv2_erode_def bool_to_u8_def eq_scalar_def
  using rect_map[OF rect_erode_once[OF rect_map[OF rect_map[OF r]] R]] by simp

section \<open>The depth subtraction\<close>

lemma subtract_where_ok:
  assumes "rect msk R C" "rect dem R C" "0 \<le> d" "d \<le> 65535"
  shows "subtract_where msk dem d =
           Inr (map2 (map2 (\<lambda>m v. if m then v - word_of_int d else v)) msk dem)"
  using rect_same_shape[OF assms(1,2)] assms(3,4) by (simp add: subtract_where_def)

lemma subtraction_result:
  assumes w: "truthy (water_resources_path s)"
    and wf: "rasters8 s (the (water_resources_path s)) = Some wri"
    and df: "rasters16 s (output_path cfg) = Some dem"
    and rw: "rect wri R C" and rd: "rect dem R C" and R: "0 < R" and C: "0 < C"
    and d: "0 \<le> water_depth cfg" "water_depth cfg \<le> 65535"
  shows "\<exists>s' dem'. subtraction cfg s = Inr s'
           \<and> rasters16 s' = (rasters16 s)(output_path cfg \<mapsto> dem')
           \<and> rect dem' R C
           \<and> (\<forall>i < R. \<forall>j < C. dem' ! i ! j =
                 (if water_inside wri R C i j then dem ! i ! j - word_of_int (water_depth cfg)
                  else dem ! i ! j))"
proof -
  let ?m = "astype_bool (cv2_erode (bool_to_u8 (eq_scalar wri 255)) 3 1)"
  let ?dem' = "map2 (map2 (\<lambda>m v. if m then v - word_of_int (water_depth cfg) else v)) ?m dem"
  have rm: "rect ?m R C" by (rule rect_eroded_mask[OF rw R])
  have sw: "subtract_where ?m dem (water_depth cfg) = Inr ?dem'"
    by (rule subtract_where_ok[OF rm rd d])
  have rd': "rect ?dem' R C" by (rule rect_map2[OF rm rd])
  have ne: "concat ?dem' \<noteq> []" by (rule rect_nonempty[OF rd' R C])
  have run: "subtraction cfg s =
     Inr (logger DEBUG ''Water depth subtracted from DEM data: %s''
            (s\<lparr>rasters16 := (rasters16 s)(output_path cfg \<mapsto> ?dem')\<rparr>))"
    using w wf df sw ne by (simp add: subtraction_def Let_def and_then_def imwrite16_def)
  have px: "\<forall>i < R. \<forall>j < C. ?dem' ! i ! j =
                 (if water_inside wri R C i j then dem ! i ! j - word_of_int (water_depth cfg)
                  else dem ! i ! j)"
  proof (intro allI impI)
    fix i j assume i: "i < R" and j: "j < C"
    show "?dem' ! i ! j =
                 (if water_inside wri R C i j then dem ! i ! j - word_of_int (water_depth cfg)
                  else dem ! i ! j)"
      unfolding map2_px[OF rm rd i j] eroded_mask_px[OF rw R i j] by simp
  qed
  have fs: "rasters16 (logger DEBUG ''Water depth subtracted from DEM data: %s''
            (s\<lparr>rasters16 := (rasters16 s)(output_path cfg \<mapsto> ?dem')\<rparr>))
          = (rasters16 s)(output_path cfg \<mapsto> ?dem')"
    by (simp add: logger_def)
  from run fs rd' px show ?thesis by blast
qed

lemma unat_word_of_depth:
  assumes "0 \<le> d" "d \<le> 65535"
  shows "unat (word_of_int d :: 16 word) = nat d"
proof -
  have "uint (word_of_int d :: 16 word) = d"
    using assms by (simp add: uint_word_of_int)
  then show ?thesis by (simp add: unat_eq_nat_uint)
qed

lemma unat_sub_depth:
  assumes "0 \<le> d" "d \<le> 65535"
  shows "unat ((v :: 16 word) - word_of_int d) =
           (if nat d \<le> unat v then unat v - nat d else unat v + 65536 - nat d)"
  unfolding unat_sub_if_size unat_word_of_depth[OF assms] by (simp add: word_size)

text \<open>
  Claim C2, as the code has it. When the water mask and the elevation raster have the
  same shape and the water depth is between 1 and 65535, \<open>subtraction\<close> returns, and
  every pixel that the eroded mask selects is lowered by the depth in the raster's own
  16-bit unsigned arithmetic: to \<open>e - d\<close> when the elevation \<open>e\<close> is at least the depth
  \<open>d\<close>, and around to \<open>e + 65536 - d\<close> when it is less. Nothing is clamped at 0. The
  other pixels keep their value.
\<close>

theorem subtraction_wraps:
  assumes "truthy (water_resources_path s)"
    and "rasters8 s (the (water_resources_path s)) = Some wri"
    and "rasters16 s (output_path cfg) = Some dem"
    and "rect wri R C" and "rect dem R C" and "0 < R" and "0 < C"
    and "0 < water_depth cfg" and "water_depth cfg \<le> 65535"
  shows "\<exists>s' dem'. subtraction cfg s = Inr s'
           \<and> rasters16 s' (output_path cfg) = Some dem'
           \<and> rect dem' R C
           \<and> (\<forall>i < R. \<forall>j < C. unat (dem' ! i ! j) =
                 (if water_inside wri R C i j
                  then if nat (water_depth cfg) \<le> unat (dem ! i ! j)
                       then unat (dem ! i ! j) - nat (water_depth cfg)
                       else unat (dem ! i ! j) + 65536 - nat (water_depth cfg)
                  else unat (dem ! i ! j)))"
proof -
  have d: "0 \<le> water_depth cfg" using assms(8) by simp
  from subtraction_result[OF assms(1-7) d assms(9)] obtain s' dem' where
    r: "subtraction cfg s = Inr s'" "rasters16 s' = (rasters16 s)(output_path cfg \<mapsto> dem')"
       "rect dem' R C"
    and px: "\<forall>i < R. \<forall>j < C. dem' ! i ! j =
                 (if water_inside wri R C i j then dem ! i ! j - word_of_int (water_depth cfg)
                  else dem ! i ! j)"
    by blast
  have "\<forall>i < R. \<forall>j < C. unat (dem' ! i ! j) =
                 (if water_inside wri R C i j
                  then if nat (water_depth cfg) \<le> unat (dem ! i ! j)
                       then unat (dem ! i ! j) - nat (water_depth cfg)
                       else unat (dem ! i ! j) + 65536 - nat (water_depth cfg)
                  else unat (dem ! i ! j))"
  proof (intro allI impI)
    fix i j assume ij: "i < R" "j < C"
    from px ij have e: "dem' ! i ! j =
                 (if water_inside wri R C i j then dem ! i ! j - word_of_int (water_depth cfg)
                  else dem ! i ! j)" by blast
    show "unat (dem' ! i ! j) =
                 (if water_inside wri R C i j
                  then if nat (water_depth cfg) \<le> unat (dem ! i ! j)
                       then unat (dem ! i ! j) - nat (water_depth cfg)
                       else unat (dem ! i ! j) + 65536 - nat (water_depth cfg)
                  else unat (dem ! i ! j))"
      unfolding e using unat_sub_depth[OF d assms(9), of "dem ! i ! j"]
      by (cases "water_inside wri R C i j") simp_all
  qed
  moreover have "rasters16 s' (output_path cfg) = Some dem'" using r(2) by simp
  ultimately show ?thesis using r(1,3) by blast
qed

text \<open>
  Claim C2 as stated fails: with depth 50 over a 3 by 3 mask that is all water, the
  pixels of elevation 10 become 65496, not 0; the pixel of elevation 100 becomes 50.
\<close>

theorem subtraction_clamp_counterexample:
  "raster16_after
     (subtraction (example_config\<lparr>water_depth := 50\<rparr>)
        (water_state example_config [[255, 255, 255], [255, 255, 255], [255, 255, 255]]
           [[10, 10, 10], [10, 100, 10], [10, 10, 10]] :: unit state))
     (output_path example_config)
   = Inr (Some [[65496, 65496, 65496], [65496, 50, 65496], [65496, 65496, 65496]])"
  by code_simp

lemma square_mask_px:
  "i < n \<Longrightarrow> j < n \<Longrightarrow>
     square_mask n a b side ! i ! j =
       (if a \<le> i \<and> i < a + side \<and> b \<le> j \<and> j < b + side then 255 else 0)"
  by (simp add: square_mask_def)

lemma rect_square_mask: "rect (square_mask n a b side) n n"
  unfolding square_mask_def by (rule rect_grid)

lemma water_inside_iff:
  "water_inside img R C i j \<longleftrightarrow>
     (\<forall>a b. i - 1 \<le> a \<and> a < min R (i + 2) \<and> j - 1 \<le> b \<and> b < min C (j + 2)
            \<longrightarrow> img ! a ! b = 255)"
  by (auto simp: water_inside_def list_all_iff window_mem)

lemma water_inside_square:
  assumes a: "1 \<le> a" "a + side < n" and b: "1 \<le> b" "b + side < n"
    and i: "i < n" and j: "j < n"
  shows "water_inside (square_mask n a b side) n n i j
           \<longleftrightarrow> a + 1 \<le> i \<and> i + 1 < a + side \<and> b + 1 \<le> j \<and> j + 1 < b + side"
    (is "?L \<longleftrightarrow> ?Rhs")
proof
  assume r: ?Rhs
  show ?L
    unfolding water_inside_iff
  proof (intro allI impI)
    fix x y assume w: "i - 1 \<le> x \<and> x < min n (i + 2) \<and> j - 1 \<le> y \<and> y < min n (j + 2)"
    then have "x < n" "y < n" by simp_all
    then show "square_mask n a b side ! x ! y = 255"
      using r w by (simp add: square_mask_px) arith
  qed
next
  assume l: ?L
  have all: "\<And>x y. i - 1 \<le> x \<Longrightarrow> x < min n (i + 2) \<Longrightarrow> j - 1 \<le> y \<Longrightarrow> y < min n (j + 2)
               \<Longrightarrow> a \<le> x \<and> x < a + side \<and> b \<le> y \<and> y < b + side"
  proof -
    fix x y assume w: "i - 1 \<le> x" "x < min n (i + 2)" "j - 1 \<le> y" "y < min n (j + 2)"
    then have xy: "x < n" "y < n" by simp_all
    from l w have "square_mask n a b side ! x ! y = 255"
      unfolding water_inside_iff by blast
    then show "a \<le> x \<and> x < a + side \<and> b \<le> y \<and> y < b + side"
      unfolding square_mask_px[OF xy] by (simp split: if_splits)
  qed
  have "i - 1 < min n (i + 2)" "j - 1 \<le> j" "j < min n (j + 2)" using i j by auto
  from all[OF order_refl this] have lo_i: "a \<le> i - 1" by simp
  have "i - 1 \<le> min (n - 1) (i + 1)" "min (n - 1) (i + 1) < min n (i + 2)"
       "j - 1 \<le> j" "j < min n (j + 2)" using i j by auto
  from all[OF this] have hi_i: "min (n - 1) (i + 1) < a + side" by simp
  have "i - 1 \<le> i" "i < min n (i + 2)" "j - 1 < min n (j + 2)" using i j by auto
  from all[OF this(1,2) order_refl this(3)] have lo_j: "b \<le> j - 1" by simp
  have "i - 1 \<le> i" "i < min n (i + 2)"
       "j - 1 \<le> min (n - 1) (j + 1)" "min (n - 1) (j + 1) < min n (j + 2)" using i j by auto
  from all[OF this] have hi_j: "min (n - 1) (j + 1) < b + side" by simp
  show ?Rhs using lo_i hi_i lo_j hi_j a b i j by auto
qed

lemma rect_replicate: "rect (replicate R (replicate C v)) R C"
  by (simp add: rect_def list_all_iff)

text \<open>
  Claim C6. On a 1025 by 1025 raster of value 1000, with depth 50 and a mask that is
  255 exactly on a 100 by 100 square lying inside the image (top left pixel \<open>(a, b)\<close>;
  the centred square has \<open>a = b = 462\<close>), \<open>subtraction\<close> writes a raster that is 950 on
  the square without its one-pixel ring and 1000 on the ring and outside the square.
\<close>

theorem depth_adjustment_scenario:
  assumes "truthy (water_resources_path s)"
    and "rasters8 s (the (water_resources_path s)) = Some (square_mask 1025 a b 100)"
    and "rasters16 s (output_path cfg) = Some (replicate 1025 (replicate 1025 1000))"
    and "water_depth cfg = 50"
    and "1 \<le> a" and "a + 100 < 1025" and "1 \<le> b" and "b + 100 < 1025"
  shows "\<exists>s' dem'. subtraction cfg s = Inr s'
           \<and> rasters16 s' (output_path cfg) = Some dem'
           \<and> rect dem' 1025 1025
           \<and> (\<forall>i < 1025. \<forall>j < 1025. dem' ! i ! j =
                 (if a + 1 \<le> i \<and> i < a + 99 \<and> b + 1 \<le> j \<and> j < b + 99 then 950 else 1000))"
proof -
  have d: "0 \<le> water_depth cfg" "water_depth cfg \<le> 65535" using assms(4) by simp_all
  have pos: "(0::nat) < 1025" by simp
  from subtraction_result[OF assms(1,2,3) rect_square_mask rect_replicate pos pos d]
  obtain s' dem' where
    r: "subtraction cfg s = Inr s'" "rasters16 s' = (rasters16 s)(output_path cfg \<mapsto> dem')"
       "rect dem' 1025 1025"
    and px: "\<forall>i < 1025. \<forall>j < 1025. dem' ! i ! j =
         (if water_inside (square_mask 1025 a b 100) 1025 1025 i j
          then replicate 1025 (replicate 1025 (1000 :: 16 word)) ! i ! j - word_of_int (water_depth cfg)
          else replicate 1025 (replicate 1025 1000) ! i ! j)"
    by blast
  have "\<forall>i < 1025. \<forall>j < 1025. dem' ! i ! j =
          (if a + 1 \<le> i \<and> i < a + 99 \<and> b + 1 \<le> j \<and> j < b + 99 then 950 else 1000)"
  proof (intro allI impI)
    fix i j :: nat assume ij: "i < 1025" "j < 1025"
    have wi: "water_inside (square_mask 1025 a b 100) 1025 1025 i j
                \<longleftrightarrow> a + 1 \<le> i \<and> i < a + 99 \<and> b + 1 \<le> j \<and> j < b + 99"
      unfolding water_inside_square[OF assms(5,6,7,8) ij] by arith
    from px ij have "dem' ! i ! j =
         (if water_inside (square_mask 1025 a b 100) 1025 1025 i j
          then replicate 1025 (replicate 1025 (1000 :: 16 word)) ! i ! j - word_of_int (water_depth cfg)
          else replicate 1025 (replicate 1025 1000) ! i ! j)" by blast
    then show "dem' ! i ! j =
          (if a + 1 \<le> i \<and> i < a + 99 \<and> b + 1 \<le> j \<and> j < b + 99 then 950 else 1000)"
      unfolding wi using ij assms(4) by simp
  qed
  moreover have "rasters16 s' (output_path cfg) = Some dem'" using r(2) by simp
  ultimately show ?thesis using r(1,3) by blast
qed

theorem depth_adjustment_scenario_witness:
  "truthy (water_resources_path
             (water_state example_config (square_mask 1025 462 462 100)
                (replicate 1025 (replicate 1025 1000)) :: unit state))
   \<and> water_depth (example_config\<lparr>water_depth := 50\<rparr>) = 50
   \<and> (1::nat) \<le> 462 \<and> (462::nat) + 100 < 1025
   \<and> (\<exists>s' dem'.
         subtraction (example_config\<lparr>water_depth := 50\<rparr>)
           (water_state example_config (square_mask 1025 462 462 100)
              (replicate 1025 (replicate 1025 1000)) :: unit state) = Inr s'
         \<and> rasters16 s' (output_path example_config) = Some dem'
         \<and> dem' ! 512 ! 512 = 950 \<and> dem' ! 463 ! 560 = 950
         \<and> dem' ! 462 ! 500 = 1000 \<and> dem' ! 561 ! 561 = 1000 \<and> dem' ! 0 ! 1024 = 1000)"
proof -
  let ?s = "water_state example_config (square_mask 1025 462 462 100)
                (replicate 1025 (replicate 1025 1000)) :: unit state"
  let ?cfg = "example_config\<lparr>water_depth := 50\<rparr>"
  have h1: "truthy (water_resources_path ?s)"
    by (simp add: water_state_def initial_state_def truthy_def path_join_def example_config_def)
  have h2: "rasters8 ?s (the (water_resources_path ?s)) = Some (square_mask 1025 462 462 100)"
    by (simp add: water_state_def initial_state_def)
  have h3: "rasters16 ?s (output_path ?cfg) = Some (replicate 1025 (replicate 1025 1000))"
    by (simp add: water_state_def initial_state_def)
  have h4: "water_depth ?cfg = 50" by simp
  have h5: "(1::nat) \<le> 462" "(462::nat) + 100 < 1025" by simp_all
  from depth_adjustment_scenario[OF h1 h2 h3 h4 h5 h5]
  obtain s' dem' where r: "subtraction ?cfg ?s = Inr s'"
      "rasters16 s' (output_path ?cfg) = Some dem'"
    and px: "\<forall>i < 1025. \<forall>j < 1025. dem' ! i ! j =
                 (if 462 + 1 \<le> i \<and> i < 462 + 99 \<and> 462 + 1 \<le> j \<and> j < 462 + 99
                  then 950 else 1000)"
    by blast
  have p: "dem' ! i ! j = (if 463 \<le> i \<and> i < 561 \<and> 463 \<le> j \<and> j < 561 then 950 else 1000)"
    if "i < 1025" "j < 1025" for i j
    using px that by simp
  have "dem' ! 512 ! 512 = 950" "dem' ! 463 ! 560 = 950" "dem' ! 462 ! 500 = 1000"
       "dem' ! 561 ! 561 = 1000" "dem' ! 0 ! 1024 = 1000"
    by (simp_all add: p)
  with r h1 h4 h5 show ?thesis by auto
qed

theorem subtraction_wraps_witness:
  "truthy (water_resources_path
             (water_state example_config (replicate 3 (replicate 3 255))
                [[10, 10, 10], [10, 100, 10], [10, 10, 10]] :: unit state))
   \<and> rect (replicate 3 (replicate 3 (255 :: 8 word))) 3 3
   \<and> rect [[10, 10, 10], [10, 100, 10], [10, 10, 10 :: 16 word]] 3 3
   \<and> 0 < water_depth (example_config\<lparr>water_depth := 50\<rparr>)
   \<and> water_depth (example_config\<lparr>water_depth := 50\<rparr>) \<le> 65535
   \<and> (\<exists>s' dem'.
         subtraction (example_config\<lparr>water_depth := 50\<rparr>)
           (water_state example_config (replicate 3 (replicate 3 255))
              [[10, 10, 10], [10, 100, 10], [10, 10, 10]] :: unit state) = Inr s'
         \<and> rasters16 s' (output_path (example_config\<lparr>water_depth := 50\<rparr>)) = Some dem'
         \<and> rect dem' 3 3
         \<and> unat (dem' ! 0 ! 0) = 65496 \<and> unat (dem' ! 1 ! 1) = 50)"
proof -
  let ?s = "water_state example_config (replicate 3 (replicate 3 255))
                [[10, 10, 10], [10, 100, 10], [10, 10, 10]] :: unit state"
  let ?cfg = "example_config\<lparr>water_depth := 50\<rparr>"
  let ?dem = "[[10, 10, 10], [10, 100, 10], [10, 10, 10 :: 16 word]]"
  have h1: "truthy (water_resources_path ?s)"
    by (simp add: water_state_def initial_state_def truthy_def path_join_def example_config_def)
  have h2: "rasters8 ?s (the (water_resources_path ?s)) = Some (replicate 3 (replicate 3 255))"
    by (simp add: water_state_def initial_state_def)
  have h3: "rasters16 ?s (output_path ?cfg) = Some ?dem"
    by (simp add: water_state_def initial_state_def)
  have h4: "rect (replicate 3 (replicate 3 (255 :: 8 word))) 3 3" by (rule rect_replicate)
  have h5: "rect ?dem 3 3" by (simp add: rect_def)
  have h6: "(0::nat) < 3" by simp
  have h8: "0 < water_depth ?cfg" "water_depth ?cfg \<le> 65535" by simp_all
  from subtraction_wraps[OF h1 h2 h3 h4 h5 h6 h6 h8]
  obtain s' dem' where r: "subtraction ?cfg ?s = Inr s'"
      "rasters16 s' (output_path ?cfg) = Some dem'" "rect dem' 3 3"
    and px: "\<forall>i < 3. \<forall>j < 3. unat (dem' ! i ! j) =
                 (if water_inside (replicate 3 (replicate 3 255)) 3 3 i j
                  then if nat (water_depth ?cfg) \<le> unat (?dem ! i ! j)
                       then unat (?dem ! i ! j) - nat (water_depth ?cfg)
                       else unat (?dem ! i ! j) + 65536 - nat (water_depth ?cfg)
                  else unat (?dem ! i ! j))"
    by blast
  have w: "water_inside (replicate 3 (replicate 3 255)) 3 3 0 0"
          "water_inside (replicate 3 (replicate 3 255)) 3 3 1 1"
    by code_simp+
  from px have "unat (dem' ! 0 ! 0) =
                 (if water_inside (replicate 3 (replicate 3 255)) 3 3 0 0
                  then if nat (water_depth ?cfg) \<le> unat (?dem ! 0 ! 0)
                       then unat (?dem ! 0 ! 0) - nat (water_depth ?cfg)
                       else unat (?dem ! 0 ! 0) + 65536 - nat (water_depth ?cfg)
                  else unat (?dem ! 0 ! 0))" by simp
  then have p0: "unat (dem' ! 0 ! 0) = 65496" unfolding if_P[OF w(1)] by simp
  from px have "unat (dem' ! 1 ! 1) =
                 (if water_inside (replicate 3 (replicate 3 255)) 3 3 1 1
                  then if nat (water_depth ?cfg) \<le> unat (?dem ! 1 ! 1)
                       then unat (?dem ! 1 ! 1) - nat (water_depth ?cfg)
                       else unat (?dem ! 1 ! 1) + 65536 - nat (water_depth ?cfg)
                  else unat (?dem ! 1 ! 1))" by simp
  then have p1: "unat (dem' ! 1 ! 1) = 50" unfolding if_P[OF w(2)] by simp
  from r p0 p1 h1 h4 h5 h8 show ?thesis by blast
qed

section \<open>The ground level without zero samples\<close>

text \<open>
  Claim C3. The ground level is the largest height after the inversion, which is the
  height of the raster's lowest samples, whether or not they are zero. On a raster
  without any zero sample the cell at the lowest corner is skipped all the same: here
  the sample 5 is inverted to the ground level 8 and its cell yields no face, although
  \<open>include_zeros\<close> is documented as deciding about the zero height values.
\<close>

theorem skipped_cells_without_zero:
  "triangulate [[5, 6, 7], [8, 9, 10], [11, 12, 13 :: 16 word]] False =
     Inr \<lparr> vertices = [(0, 0, 8), (1, 0, 7), (2, 0, 6), (0, 1, 5), (1, 1, 4), (2, 1, 3),
                       (0, 2, 2), (1, 2, 1), (2, 2, 0)],
           faces = [[1, 4, 5], [1, 5, 2], [3, 6, 7], [3, 7, 4], [4, 7, 8], [4, 8, 5]],
           skipped = 1 \<rparr>"
  by code_simp

section \<open>The raster of the elevated water\<close>








section \<open>Compositing the water mask\<close>

lemma unat_saturate_add: "unat (saturate_add x y) = min 255 (unat x + unat y)"
proof (cases "255 < unat x + unat y")
  case True then show ?thesis by (simp add: saturate_add_def)
next
  case False
  then have "unat x + unat y < 2 ^ LENGTH(8)" by simp
  then have "unat (x + y) = unat x + unat y" by (simp only: unat_add_lem)
  with False show ?thesis by (simp add: saturate_add_def)
qed

lemma saturate_add_zero [simp]: "saturate_add 0 y = y" "saturate_add x 0 = x"
proof -
  have "unat y \<le> 255" "unat x \<le> 255" using unsigned_less[of y, where ?'a=nat] unsigned_less[of x, where ?'a=nat] by simp_all
  then show "saturate_add 0 y = y" "saturate_add x 0 = x"
    by (simp_all add: saturate_add_def)
qed

lemma row_marked_disjoint:
  "list_all2 (\<lambda>x y. x = 0 \<or> y = 0) ra rb \<Longrightarrow>
     length (filter (\<lambda>v. v \<noteq> 0) (map2 saturate_add ra rb)) =
       length (filter (\<lambda>v. v \<noteq> 0) ra) + length (filter (\<lambda>v. v \<noteq> 0) rb)"
  by (induction ra rb rule: list_all2_induct) auto

lemma raster_marked_disjoint:
  "list_all2 (list_all2 (\<lambda>x y. x = 0 \<or> y = 0)) a b \<Longrightarrow>
     marked_count (map2 (map2 saturate_add) a b) = marked_count a + marked_count b"
  unfolding marked_count_def
proof (induction a b rule: list_all2_induct)
  case Nil
  then show ?case by simp
next
  case (Cons ra a rb b)
  have "length (filter (\<lambda>v. v \<noteq> 0) (concat (map2 (map2 saturate_add) (ra # a) (rb # b)))) =
          length (filter (\<lambda>v. v \<noteq> 0) (map2 saturate_add ra rb))
        + length (filter (\<lambda>v. v \<noteq> 0) (concat (map2 (map2 saturate_add) a b)))"
    by (simp del: filter_map)
  also have "\<dots> = (length (filter (\<lambda>v. v \<noteq> 0) ra) + length (filter (\<lambda>v. v \<noteq> 0) rb))
        + (length (filter (\<lambda>v. v \<noteq> 0) (concat a)) + length (filter (\<lambda>v. v \<noteq> 0) (concat b)))"
    unfolding row_marked_disjoint[OF Cons.hyps(1)] Cons.IH by (rule refl)
  finally show ?case by simp
qed

lemma disjoint_list_all2:
  assumes "rect a R C" "rect b R C" "\<forall>i < R. \<forall>j < C. a ! i ! j = 0 \<or> b ! i ! j = 0"
  shows "list_all2 (list_all2 (\<lambda>x y. x = 0 \<or> y = 0)) a b"
  using assms by (simp add: list_all2_conv_all_nth rect_def list_all_length)

lemma add_zeros:
  assumes "rect a R C"
  shows "map2 (map2 saturate_add) (replicate R (replicate C 0)) a = a"
  using assms
  by (intro nth_equalityI) (auto simp: rect_def list_all_length intro!: nth_equalityI)

lemma cv2_add_ok:
  "rect a R C \<Longrightarrow> rect b R C \<Longrightarrow> cv2_add a b = Inr (map2 (map2 saturate_add) a b)"
  using rect_same_shape[of a R C b] by (simp add: cv2_add_def)

lemma merge_two_layers:
  assumes "rasters8 s p1 = Some a" "rasters8 s p2 = Some b" "rect a n n" "rect b n n"
  shows "merge_layers s (replicate n (replicate n 0)) [p1, p2] =
           Inr (map2 (map2 saturate_add) a b)"
proof -
  have "cv2_add (replicate n (replicate n 0)) a = Inr a"
    using cv2_add_ok[OF rect_replicate assms(3)] add_zeros[OF assms(3)] by simp
  then show ?thesis
    using assms(1,2) cv2_add_ok[OF assms(3,4)] by (simp add: and_then_def)
qed

text \<open>
  Claim C5. When the texture component delivers two layer images of the background
  size, \<open>create_background_textures\<close> writes their pixel-wise saturating sum as the water
  mask: every pixel is the smaller of 255 and the sum of the two samples, so it never
  wraps around; and when no pixel is marked (non-zero) in both layers, the number of
  marked pixels of the mask is the sum of the numbers of the two layers.
\<close>

theorem water_mask_compositing:
  assumes "schemas s (texture_schema cfg) = Some layers_schema"
    and "background_layers_of layers_schema \<noteq> []"
    and "texture_process ext (background_layers_of layers_schema) s = Inr (s1, [p1, p2])"
    and "rasters8 s1 p1 = Some a" and "rasters8 s1 p2 = Some b"
    and "rect a (background_size cfg) (background_size cfg)"
    and "rect b (background_size cfg) (background_size cfg)"
    and "0 < background_size cfg"
  shows "\<exists>s' img. create_background_textures cfg ext s = Inr s'
           \<and> water_resources_path s' = Some (path_join (water_directory cfg) ''water_resources.png'')
           \<and> rasters8 s' (path_join (water_directory cfg) ''water_resources.png'') = Some img
           \<and> rect img (background_size cfg) (background_size cfg)
           \<and> (\<forall>i < background_size cfg. \<forall>j < background_size cfg.
                 unat (img ! i ! j) = min 255 (unat (a ! i ! j) + unat (b ! i ! j)))
           \<and> ((\<forall>i < background_size cfg. \<forall>j < background_size cfg.
                   a ! i ! j = 0 \<or> b ! i ! j = 0)
                \<longrightarrow> marked_count img = marked_count a + marked_count b)"
proof -
  let ?n = "background_size cfg"
  let ?img = "map2 (map2 saturate_add) a b"
  let ?p = "path_join (water_directory cfg) ''water_resources.png''"
  let ?s2 = "logger DEBUG ''Found %s background textures.'' s1"
  let ?s3 = "?s2\<lparr>rasters8 := (rasters8 ?s2)(?p \<mapsto> ?img)\<rparr>"
  let ?s' = "(logger DEBUG ''Background texture saved: %s'' ?s3)\<lparr>water_resources_path := Some ?p\<rparr>"
  have f: "rasters8 ?s2 p1 = Some a" "rasters8 ?s2 p2 = Some b"
    using assms(4,5) by (simp_all add: logger_def)
  have m: "merge_layers ?s2 (replicate ?n (replicate ?n 0)) [p1, p2] = Inr ?img"
    by (rule merge_two_layers[OF f assms(6,7)])
  have ri: "rect ?img ?n ?n" by (rule rect_map2[OF assms(6,7)])
  have ne: "concat ?img \<noteq> []" by (rule rect_nonempty[OF ri assms(8) assms(8)])
  have w: "imwrite8 ?p ?img ?s2 = Inr ?s3" using ne by (simp add: imwrite8_def)
  have run: "create_background_textures cfg ext s = Inr ?s'"
    unfolding create_background_textures_def
    using assms(1,2,3) m w by (simp add: Let_def and_then_def)
  have a1: "water_resources_path ?s' = Some ?p" by (simp add: logger_def)
  have a2: "rasters8 ?s' ?p = Some ?img" by (simp add: logger_def)
  have px: "\<forall>i < ?n. \<forall>j < ?n. unat (?img ! i ! j) = min 255 (unat (a ! i ! j) + unat (b ! i ! j))"
  proof (intro allI impI)
    fix i j assume ij: "i < ?n" "j < ?n"
    show "unat (?img ! i ! j) = min 255 (unat (a ! i ! j) + unat (b ! i ! j))"
      unfolding map2_px[OF assms(6,7) ij] by (rule unat_saturate_add)
  qed
  have cnt: "(\<forall>i < ?n. \<forall>j < ?n. a ! i ! j = 0 \<or> b ! i ! j = 0)
                \<longrightarrow> marked_count ?img = marked_count a + marked_count b"
    using raster_marked_disjoint[OF disjoint_list_all2[OF assms(6,7)]] by blast
  from run a1 a2 ri px cnt show ?thesis by blast
qed

theorem water_mask_compositing_witness:
  "schemas (schema_state example_config [water_layer] :: mesh_expr state) (texture_schema (example_config\<lparr>background_size := 2\<rparr>)) = Some [water_layer]
   \<and> background_layers_of [water_layer] \<noteq> []
   \<and> rect [[255, 0], [0, 0 :: 8 word]] (background_size (example_config\<lparr>background_size := 2\<rparr>)) (background_size (example_config\<lparr>background_size := 2\<rparr>))
   \<and> rect [[0, 255], [0, 255 :: 8 word]] (background_size (example_config\<lparr>background_size := 2\<rparr>)) (background_size (example_config\<lparr>background_size := 2\<rparr>))
   \<and> 0 < background_size (example_config\<lparr>background_size := 2\<rparr>)
   \<and> (\<exists>s' img. create_background_textures (example_config\<lparr>background_size := 2\<rparr>) (example_externals ''map/background/FULL.png'' [] [(''map/weights/a.png'', [[255, 0], [0, 0 :: 8 word]]), (''map/weights/b.png'', [[0, 255], [0, 255 :: 8 word]])]) (schema_state example_config [water_layer] :: mesh_expr state) = Inr s'
         \<and> rasters8 s' (path_join (water_directory (example_config\<lparr>background_size := 2\<rparr>)) ''water_resources.png'') = Some img
         \<and> rect img (background_size (example_config\<lparr>background_size := 2\<rparr>)) (background_size (example_config\<lparr>background_size := 2\<rparr>))
         \<and> (\<forall>i < background_size (example_config\<lparr>background_size := 2\<rparr>). \<forall>j < background_size (example_config\<lparr>background_size := 2\<rparr>).
                 unat (img ! i ! j) = min 255 (unat ([[255, 0], [0, 0 :: 8 word]] ! i ! j) + unat ([[0, 255], [0, 255 :: 8 word]] ! i ! j)))
         \<and> marked_count img = marked_count [[255, 0], [0, 0 :: 8 word]] + marked_count [[0, 255], [0, 255 :: 8 word]])
   \<and> marked_count [[255, 0], [0, 0 :: 8 word]] = 1 \<and> marked_count [[0, 255], [0, 255 :: 8 word]] = 2
   \<and> raster8_after (create_background_textures (example_config\<lparr>background_size := 2\<rparr>) (example_externals ''map/background/FULL.png'' [] [(''map/weights/a.png'', [[255, 0], [0, 0 :: 8 word]]), (''map/weights/b.png'', [[0, 255], [0, 255 :: 8 word]])]) (schema_state example_config [water_layer] :: mesh_expr state)) ''map/water/water_resources.png''
        = Inr (Some [[255, 255], [0, 255]])
   \<and> raster8_after (create_background_textures (example_config\<lparr>background_size := 2\<rparr>) (example_externals ''map/background/FULL.png'' [] [(''map/weights/a.png'', [[255, 0], [0, 0 :: 8 word]]), (''map/weights/b.png'', [[255, 255], [0, 255 :: 8 word]])]) (schema_state example_config [water_layer] :: mesh_expr state)) ''map/water/water_resources.png''
        = Inr (Some [[255, 255], [0, 255]])"
proof -
  let ?cfg = "(example_config\<lparr>background_size := 2\<rparr>)"
  let ?s = "(schema_state example_config [water_layer] :: mesh_expr state)"
  let ?pa = "''map/weights/a.png''" let ?pb = "''map/weights/b.png''"
  let ?s2 = "?s\<lparr>rasters8 := rasters8 ?s ++ map_of [(?pa, [[255, 0], [0, 0 :: 8 word]]), (?pb, [[0, 255], [0, 255 :: 8 word]])]\<rparr>"
  have h1: "schemas ?s (texture_schema ?cfg) = Some [water_layer]"
    by (simp add: schema_state_def initial_state_def)
  have h2: "background_layers_of [water_layer] \<noteq> []"
    by (simp add: background_layers_of_def water_layer_def)
  have h3: "texture_process (example_externals ''map/background/FULL.png'' [] [(''map/weights/a.png'', [[255, 0], [0, 0 :: 8 word]]), (''map/weights/b.png'', [[0, 255], [0, 255 :: 8 word]])]) (background_layers_of [water_layer]) ?s = Inr (?s2, [?pa, ?pb])"
    by (simp add: example_externals_def texture_writes_def)
  have h4: "rasters8 ?s2 ?pa = Some [[255, 0], [0, 0 :: 8 word]]" "rasters8 ?s2 ?pb = Some [[0, 255], [0, 255 :: 8 word]]" by simp_all
  have ra: "rect [[255, 0], [0, 0 :: 8 word]] (background_size ?cfg) (background_size ?cfg)"
    and rc: "rect [[0, 255], [0, 255 :: 8 word]] (background_size ?cfg) (background_size ?cfg)" by (simp_all add: rect_def)
  have h8: "0 < background_size ?cfg" by simp
  have dis: "\<forall>i < background_size ?cfg. \<forall>j < background_size ?cfg. [[255, 0], [0, 0 :: 8 word]] ! i ! j = 0 \<or> [[0, 255], [0, 255 :: 8 word]] ! i ! j = 0"
    by (simp add: less_Suc_eq numeral_2_eq_2)
  have e2: "raster8_after (create_background_textures (example_config\<lparr>background_size := 2\<rparr>) (example_externals ''map/background/FULL.png'' [] [(''map/weights/a.png'', [[255, 0], [0, 0 :: 8 word]]), (''map/weights/b.png'', [[0, 255], [0, 255 :: 8 word]])]) (schema_state example_config [water_layer] :: mesh_expr state)) ''map/water/water_resources.png''
        = Inr (Some [[255, 255], [0, 255]])" by code_simp
  have e1: "raster8_after (create_background_textures (example_config\<lparr>background_size := 2\<rparr>) (example_externals ''map/background/FULL.png'' [] [(''map/weights/a.png'', [[255, 0], [0, 0 :: 8 word]]), (''map/weights/b.png'', [[255, 255], [0, 255 :: 8 word]])]) (schema_state example_config [water_layer] :: mesh_expr state)) ''map/water/water_resources.png''
        = Inr (Some [[255, 255], [0, 255]])" by code_simp
  have cnt: "marked_count [[255, 0], [0, 0 :: 8 word]] = 1" "marked_count [[0, 255], [0, 255 :: 8 word]] = 2"
    by (simp_all add: marked_count_def)
  have w: "\<exists>s' img. create_background_textures (example_config\<lparr>background_size := 2\<rparr>) (example_externals ''map/background/FULL.png'' [] [(''map/weights/a.png'', [[255, 0], [0, 0 :: 8 word]]), (''map/weights/b.png'', [[0, 255], [0, 255 :: 8 word]])]) (schema_state example_config [water_layer] :: mesh_expr state) = Inr s'
           \<and> water_resources_path s' = Some (path_join (water_directory (example_config\<lparr>background_size := 2\<rparr>)) ''water_resources.png'')
           \<and> rasters8 s' (path_join (water_directory (example_config\<lparr>background_size := 2\<rparr>)) ''water_resources.png'') = Some img
           \<and> rect img (background_size (example_config\<lparr>background_size := 2\<rparr>)) (background_size (example_config\<lparr>background_size := 2\<rparr>))
           \<and> (\<forall>i < background_size (example_config\<lparr>background_size := 2\<rparr>). \<forall>j < background_size (example_config\<lparr>background_size := 2\<rparr>).
                 unat (img ! i ! j) = min 255 (unat ([[255, 0], [0, 0 :: 8 word]] ! i ! j) + unat ([[0, 255], [0, 255 :: 8 word]] ! i ! j)))
           \<and> ((\<forall>i < background_size (example_config\<lparr>background_size := 2\<rparr>). \<forall>j < background_size (example_config\<lparr>background_size := 2\<rparr>).
                   [[255, 0], [0, 0 :: 8 word]] ! i ! j = 0 \<or> [[0, 255], [0, 255 :: 8 word]] ! i ! j = 0)
                \<longrightarrow> marked_count img = marked_count [[255, 0], [0, 0 :: 8 word]] + marked_count [[0, 255], [0, 255 :: 8 word]])" (is "\<exists>s' img. ?P s' img")
    by (rule water_mask_compositing[OF h1 h2 h3 h4 ra rc h8])
  then obtain s' where "\<exists>img. ?P s' img" ..
  then obtain img where P: "?P s' img" ..
  note c1 = P[THEN conjunct1]
  note c3 = P[THEN conjunct2, THEN conjunct2, THEN conjunct1]
  note c4 = P[THEN conjunct2, THEN conjunct2, THEN conjunct2, THEN conjunct1]
  note c5 = P[THEN conjunct2, THEN conjunct2, THEN conjunct2, THEN conjunct2, THEN conjunct1]
  note c6 = P[THEN conjunct2, THEN conjunct2, THEN conjunct2, THEN conjunct2, THEN conjunct2]
  have c7: "marked_count img = marked_count [[255, 0], [0, 0 :: 8 word]] + marked_count [[0, 255], [0, 255 :: 8 word]]"
    by (rule mp[OF c6 dis])
  have E: "\<exists>s' img. create_background_textures (example_config\<lparr>background_size := 2\<rparr>) (example_externals ''map/background/FULL.png'' [] [(''map/weights/a.png'', [[255, 0], [0, 0 :: 8 word]]), (''map/weights/b.png'', [[0, 255], [0, 255 :: 8 word]])]) (schema_state example_config [water_layer] :: mesh_expr state) = Inr s'
         \<and> rasters8 s' (path_join (water_directory (example_config\<lparr>background_size := 2\<rparr>)) ''water_resources.png'') = Some img
         \<and> rect img (background_size (example_config\<lparr>background_size := 2\<rparr>)) (background_size (example_config\<lparr>background_size := 2\<rparr>))
         \<and> (\<forall>i < background_size (example_config\<lparr>background_size := 2\<rparr>). \<forall>j < background_size (example_config\<lparr>background_size := 2\<rparr>).
                 unat (img ! i ! j) = min 255 (unat ([[255, 0], [0, 0 :: 8 word]] ! i ! j) + unat ([[0, 255], [0, 255 :: 8 word]] ! i ! j)))
         \<and> marked_count img = marked_count [[255, 0], [0, 0 :: 8 word]] + marked_count [[0, 255], [0, 255 :: 8 word]]"
    by (rule exI[of _ s'], rule exI[of _ img], intro conjI) (rule c1 c3 c4 c5 c7)+
  from h1 h2 ra rc h8 E cnt e2 e1 show ?thesis by (intro conjI)
qed

section \<open>Mesh export and preview\<close>

lemma and_then_Inr:
  "and_then r f = Inr y \<longleftrightarrow> (\<exists>x. r = Inr x \<and> f x = Inr y)"
  by (cases r) (simp_all add: and_then_def)

lemma meshes_logger [simp]: "meshes (logger lvl msg s) = meshes s"
  and rasters16_logger [simp]: "rasters16 (logger lvl msg s) = rasters16 s"
  and rasters8_logger [simp]: "rasters8 (logger lvl msg s) = rasters8 s"
  and schemas_logger [simp]: "schemas (logger lvl msg s) = schemas s"
  and wrp_logger [simp]: "water_resources_path (logger lvl msg s) = water_resources_path s"
  and stl_logger [simp]: "stl_preview_path (logger lvl msg s) = stl_preview_path s"
  and logged_logger [simp]: "logged (logger lvl msg s) = logged s @ [(lvl, msg)]"
  by (simp_all add: logger_def)

lemma only_logs_refl: "only_logs s s"
  unfolding only_logs_def by (rule exI[of _ "[]"]) simp

lemma only_logs_logger: "only_logs s s' \<Longrightarrow> only_logs s (logger lvl msg s')"
  unfolding only_logs_def
proof -
  assume "\<exists>more. s' = s\<lparr>logged := logged s @ more\<rparr>"
  then obtain more where "s' = s\<lparr>logged := logged s @ more\<rparr>" ..
  then have "logger lvl msg s' = s\<lparr>logged := logged s @ (more @ [(lvl, msg)])\<rparr>"
    by (simp add: logger_def)
  then show "\<exists>more. logger lvl msg s' = s\<lparr>logged := logged s @ more\<rparr>" ..
qed

lemma plane_grid_only_logs:
  assumes "plane_grid cfg resize dem_data include_zeros remove_center s = Inr (grid, s1)"
  shows "only_logs s s1"
  using assms unfolding plane_grid_def
  by (auto simp: and_then_Inr Let_def split: if_splits
           intro!: only_logs_logger only_logs_refl)

lemma plane_mesh_only_logs:
  assumes "plane_mesh cfg ext grid s = Inr (mesh, s1)"
  shows "only_logs s s1"
  using assms unfolding plane_mesh_def
  by (auto simp: Let_def split: if_splits intro!: only_logs_logger only_logs_refl)





section \<open>The raster of the map\<close>





section \<open>Missing optional inputs\<close>



section \<open>The order of the steps of \<open>process\<close>\<close>

lemma keeps_rasters_refl: "keeps_rasters s s"
  by (simp add: keeps_rasters_def)

lemma keeps_rasters_trans: "keeps_rasters s s1 \<Longrightarrow> keeps_rasters s1 s2 \<Longrightarrow> keeps_rasters s s2"
  by (auto simp: keeps_rasters_def)

lemma only_logs_keeps: "only_logs s s' \<Longrightarrow> keeps_rasters s s'"
  by (auto simp: only_logs_def keeps_rasters_def)

lemma copyfile_Inr:
  assumes "copyfile src dst s = Inr s'"
  shows "\<exists>img. rasters16 s src = Some img \<and> s' = s\<lparr>rasters16 := (rasters16 s)(dst \<mapsto> img)\<rparr>"
  using assms by (auto simp: copyfile_def split: option.splits if_splits)

lemma imwrite16_Inr:
  "imwrite16 p img s = Inr s' \<Longrightarrow> s' = s\<lparr>rasters16 := (rasters16 s)(p \<mapsto> img)\<rparr>"
  by (auto simp: imwrite16_def split: if_splits)

lemma save_map_dem_path_Inr:
  assumes "save_map_dem cfg ext f (Some p) s = Inr (s', q)" and "p \<noteq> []"
  shows "\<exists>d cut. rasters16 s f = Some d
           \<and> cut_out_np d (map_size cfg div 2) False True = Inr cut
           \<and> s' = logger DEBUG ''Not resized DEM saved: %s''
                    (s\<lparr>rasters16 := (rasters16 s)(p \<mapsto> cut)\<rparr>)"
  using assms unfolding save_map_dem_def
  by (auto simp: and_then_Inr Let_def truthy_def split: option.splits dest!: imwrite16_Inr)

lemma save_map_dem_main_Inr:
  assumes "save_map_dem cfg ext f None s = Inr (s', q)"
  shows "\<exists>d cut rs. rasters16 s f = Some d
           \<and> cut_out_np d (map_size cfg div 2) False True = Inr cut
           \<and> resize16 ext cut (Dsize (map_size cfg + 1) (map_size cfg + 1)) = Inr rs
           \<and> q = main_dem_path cfg
           \<and> s' = logger DEBUG ''DEM cutout saved: %s''
                    (s\<lparr>rasters16 := (rasters16 s)(main_dem_path cfg \<mapsto> rs)\<rparr>)"
  using assms unfolding save_map_dem_def
  by (auto simp: and_then_Inr Let_def truthy_def split: option.splits dest!: imwrite16_Inr)

lemma subtraction_Inr:
  assumes "subtraction cfg s = Inr s'"
  shows "s' = logger WARNING ''Water resources texture not found.'' s
       \<or> (\<exists>d. s' = logger DEBUG ''Water depth subtracted from DEM data: %s''
                     (s\<lparr>rasters16 := (rasters16 s)(output_path cfg \<mapsto> d)\<rparr>))"
  using assms unfolding subtraction_def
  by (auto simp: and_then_Inr Let_def split: option.splits if_splits dest!: imwrite16_Inr)

lemma make_copy_Inr:
  assumes "make_copy f n s = Inr s'"
  shows "\<exists>img. s' = logger DEBUG ''Additional DEM data was copied to %s.''
                     (s\<lparr>rasters16 := (rasters16 s)(path_join (dirname f) n \<mapsto> img)\<rparr>)"
  using assms unfolding make_copy_def
  by (auto simp: and_then_Inr Let_def dest!: copyfile_Inr)

lemma plane_from_np_keeps:
  assumes "plane_from_np cfg ext resize dem_data save_path iz cp rc s = Inr s'"
  shows "keeps_rasters s s'"
proof -
  from assms obtain grid sg mesh sm where
    g: "plane_grid cfg resize dem_data iz rc s = Inr (grid, sg)"
    and m: "plane_mesh cfg ext grid sg = Inr (mesh, sm)"
    and s': "s' = (let s = logger DEBUG ''Obj file saved: %s''
                            (sm\<lparr>meshes := (meshes sm)(save_path \<mapsto> mesh)\<rparr>)
                   in if cp then mesh_to_stl cfg ext (apply_scale ext (1 / 2, 1 / 2, 1 / 2) mesh) s
                      else s)"
    unfolding plane_from_np_def by (auto simp: and_then_Inr Let_def split: if_splits)
  have a: "keeps_rasters s sm"
    using keeps_rasters_trans[OF only_logs_keeps[OF plane_grid_only_logs[OF g]]
            only_logs_keeps[OF plane_mesh_only_logs[OF m]]] .
  have b: "keeps_rasters sm s'"
    unfolding s' by (simp add: keeps_rasters_def mesh_to_stl_def Let_def)
  from a b show ?thesis by (rule keeps_rasters_trans)
qed

lemma generate_obj_files_keeps:
  assumes "generate_obj_files cfg ext s = Inr s'"
  shows "keeps_rasters s s'"
proof (cases "rasters16 s (dem_path cfg)")
  case None
  with assms show ?thesis by (auto simp: generate_obj_files_def keeps_rasters_def)
next
  case (Some d)
  let ?s1 = "logger DEBUG ''Generating obj file in path: %s'' (logger DEBUG ''DEM file for found: %s'' s)"
  from assms Some obtain sp where
    "plane_from_np cfg ext (resize16 ext) d sp False True (remove_center_setting cfg) ?s1 = Inr s'"
    by (auto simp: generate_obj_files_def Let_def)
  from plane_from_np_keeps[OF this] have "keeps_rasters ?s1 s'" .
  moreover have "keeps_rasters s ?s1" by (simp add: keeps_rasters_def)
  ultimately show ?thesis using keeps_rasters_trans by blast
qed

lemma generate_water_resources_obj_keeps:
  assumes "generate_water_resources_obj cfg ext s = Inr s'"
  shows "keeps_rasters s s'"
proof (cases "truthy (water_resources_path s)")
  case False
  with assms show ?thesis by (auto simp: generate_water_resources_obj_def keeps_rasters_def)
next
  case True
  with assms obtain pw s1 bd ew where
    a: "plane_from_np cfg ext (resize8 ext) (cv2_dilate pw 5 5)
          (path_join (water_directory cfg) ''plane_water.obj'') False False False s = Inr s1"
    and b: "plane_from_np cfg ext (resize16 ext) ew
          (path_join (water_directory cfg) ''elevated_water.obj'') False False False s1 = Inr s'"
    unfolding generate_water_resources_obj_def
    by (auto simp: and_then_Inr Let_def split: option.splits)
  from plane_from_np_keeps[OF a] plane_from_np_keeps[OF b] show ?thesis
    by (rule keeps_rasters_trans)
qed

text \<open>
  Claim C4, as the code has it. In a run of \<open>process\<close> that succeeds, let \<open>raw\<close> be the
  elevation raster once it is ready (after the texture step and the DEM step). The copy
  \<open>not_substracted\<close> holds \<open>raw\<close> and \<open>not_resized\<close> holds the cutout of \<open>raw\<close>, both
  written before any depth subtraction. The subtraction runs only for a water depth
  other than 0 (and then either adjusts the raster or, without a water mask, only warns).
  The raster of the map is cut and saved after the subtraction, from the adjusted
  raster. The log shows the same order: the saving of \<open>not_resized\<close>, then the
  subtraction's entry if any, then the saving of the map's cutout.
\<close>

theorem process_order:
  assumes run: "process cfg ext s0 = Inr s'"
    and dist: "distinct [output_path cfg, not_substracted_path cfg, not_resized_path cfg,
                        main_dem_path cfg]"
    and nr: "not_resized_path cfg \<noteq> []"
    and cp: "\<forall>n. additional_dem_name cfg = Some n \<longrightarrow>
               path_join (dirname (main_dem_path cfg)) n \<notin>
                 set [output_path cfg, not_substracted_path cfg, not_resized_path cfg,
                      main_dem_path cfg]"
  shows "\<exists>s2 raw cut adjusted cut' resized sub more.
       and_then (create_background_textures cfg ext s0)
         (\<lambda>s. if \<not> truthy (custom_background_path cfg) then dem_process ext s else Inr s) = Inr s2
     \<and> rasters16 s2 (output_path cfg) = Some raw
     \<and> cut_out_np raw (map_size cfg div 2) False True = Inr cut
     \<and> rasters16 s' (not_substracted_path cfg) = Some raw
     \<and> rasters16 s' (not_resized_path cfg) = Some cut
     \<and> rasters16 s' (output_path cfg) = Some adjusted
     \<and> (water_depth cfg = 0 \<longrightarrow> adjusted = raw \<and> sub = [])
     \<and> (water_depth cfg \<noteq> 0 \<longrightarrow>
           sub = [(DEBUG, ''Water depth subtracted from DEM data: %s'')]
         \<or> sub = [(WARNING, ''Water resources texture not found.'')] \<and> adjusted = raw)
     \<and> cut_out_np adjusted (map_size cfg div 2) False True = Inr cut'
     \<and> resize16 ext cut' (Dsize (map_size cfg + 1) (map_size cfg + 1)) = Inr resized
     \<and> rasters16 s' (main_dem_path cfg) = Some resized
     \<and> logged s' = logged s2 @ [(DEBUG, ''Not resized DEM saved: %s'')] @ sub
                      @ [(DEBUG, ''DEM cutout saved: %s'')] @ more"
proof -
  let ?out = "output_path cfg" and ?ns = "not_substracted_path cfg"
  let ?nr = "not_resized_path cfg" and ?main = "main_dem_path cfg"
  from dist have d: "?out \<noteq> ?ns" "?out \<noteq> ?nr" "?out \<noteq> ?main" "?ns \<noteq> ?nr" "?ns \<noteq> ?main"
      "?nr \<noteq> ?main" by auto
  from run obtain s1 s2 s3 s4 q4 s5 s6 q6 s7 s8 where
    p1: "create_background_textures cfg ext s0 = Inr s1"
    and p2: "(if \<not> truthy (custom_background_path cfg) then dem_process ext s1 else Inr s1) = Inr s2"
    and p3: "copyfile (dem_path cfg) ?ns s2 = Inr s3"
    and p4: "save_map_dem cfg ext (dem_path cfg) (Some ?nr) s3 = Inr (s4, q4)"
    and p5: "(if water_depth cfg \<noteq> 0 then subtraction cfg s4 else Inr s4) = Inr s5"
    and p6: "save_map_dem cfg ext (dem_path cfg) None s5 = Inr (s6, q6)"
    and p7: "(case additional_dem_name cfg of Some dem_name \<Rightarrow> make_copy q6 dem_name s6
              | None \<Rightarrow> Inr s6) = Inr s7"
    and p8: "(if generate_background cfg then generate_obj_files cfg ext s7 else Inr s7) = Inr s8"
    and p9: "(if generate_water cfg then generate_water_resources_obj cfg ext s8 else Inr s8) = Inr s'"
    by (auto simp: process_def and_then_Inr)
  have r2: "and_then (create_background_textures cfg ext s0)
         (\<lambda>s. if \<not> truthy (custom_background_path cfg) then dem_process ext s else Inr s) = Inr s2"
    using p1 p2 by (simp add: and_then_def)
  from copyfile_Inr[OF p3] obtain raw where
    raw: "rasters16 s2 ?out = Some raw" and s3: "s3 = s2\<lparr>rasters16 := (rasters16 s2)(?ns \<mapsto> raw)\<rparr>"
    by (auto simp: dem_path_def)
  from save_map_dem_path_Inr[OF p4 nr] obtain d4 cut where
    d4: "rasters16 s3 ?out = Some d4" and cut: "cut_out_np d4 (map_size cfg div 2) False True = Inr cut"
    and s4: "s4 = logger DEBUG ''Not resized DEM saved: %s'' (s3\<lparr>rasters16 := (rasters16 s3)(?nr \<mapsto> cut)\<rparr>)"
    by (auto simp: dem_path_def)
  have d4raw: "d4 = raw" using d4 raw d(1) by (simp add: s3)
  have f4: "rasters16 s4 = (rasters16 s2)(?ns \<mapsto> raw, ?nr \<mapsto> cut)" by (simp add: s4 s3)
  have l4: "logged s4 = logged s2 @ [(DEBUG, ''Not resized DEM saved: %s'')]" by (simp add: s4 s3)
  obtain sub adjusted where
    f5: "rasters16 s5 = (rasters16 s2)(?ns \<mapsto> raw, ?nr \<mapsto> cut, ?out \<mapsto> adjusted)"
    and l5: "logged s5 = logged s4 @ sub"
    and z: "water_depth cfg = 0 \<longrightarrow> adjusted = raw \<and> sub = []"
    and nz: "water_depth cfg \<noteq> 0 \<longrightarrow>
           sub = [(DEBUG, ''Water depth subtracted from DEM data: %s'')]
         \<or> sub = [(WARNING, ''Water resources texture not found.'')] \<and> adjusted = raw"
  proof (cases "water_depth cfg = 0")
    case True
    with p5 have "s5 = s4" by simp
    moreover have "(rasters16 s2)(?ns \<mapsto> raw, ?nr \<mapsto> cut, ?out \<mapsto> raw)
                     = (rasters16 s2)(?ns \<mapsto> raw, ?nr \<mapsto> cut)"
      using raw d by (auto simp: fun_eq_iff)
    ultimately show ?thesis using that[of raw "[]"] True f4 by simp
  next
    case False
    with p5 have "subtraction cfg s4 = Inr s5" by simp
    from subtraction_Inr[OF this] show ?thesis
    proof
      assume w: "s5 = logger WARNING ''Water resources texture not found.'' s4"
      have "(rasters16 s2)(?ns \<mapsto> raw, ?nr \<mapsto> cut, ?out \<mapsto> raw)
                     = (rasters16 s2)(?ns \<mapsto> raw, ?nr \<mapsto> cut)"
        using raw d by (auto simp: fun_eq_iff)
      then show ?thesis
        using that[of raw "[(WARNING, ''Water resources texture not found.'')]"] False f4 w
        by simp
    next
      assume "\<exists>dd. s5 = logger DEBUG ''Water depth subtracted from DEM data: %s''
                     (s4\<lparr>rasters16 := (rasters16 s4)(?out \<mapsto> dd)\<rparr>)"
      then obtain dd where w: "s5 = logger DEBUG ''Water depth subtracted from DEM data: %s''
                     (s4\<lparr>rasters16 := (rasters16 s4)(?out \<mapsto> dd)\<rparr>)" ..
      show ?thesis
        using that[of dd "[(DEBUG, ''Water depth subtracted from DEM data: %s'')]"] False f4 w
        by simp
    qed
  qed
  from save_map_dem_main_Inr[OF p6] obtain d6 cut' resized where
    d6: "rasters16 s5 ?out = Some d6" and cut': "cut_out_np d6 (map_size cfg div 2) False True = Inr cut'"
    and rs: "resize16 ext cut' (Dsize (map_size cfg + 1) (map_size cfg + 1)) = Inr resized"
    and q6: "q6 = ?main"
    and s6: "s6 = logger DEBUG ''DEM cutout saved: %s'' (s5\<lparr>rasters16 := (rasters16 s5)(?main \<mapsto> resized)\<rparr>)"
    by (auto simp: dem_path_def)
  have d6a: "d6 = adjusted" using d6 by (simp add: f5)
  have f6: "rasters16 s6 = (rasters16 s2)(?ns \<mapsto> raw, ?nr \<mapsto> cut, ?out \<mapsto> adjusted, ?main \<mapsto> resized)"
    by (simp add: s6 f5)
  have l6: "logged s6 = logged s2 @ [(DEBUG, ''Not resized DEM saved: %s'')] @ sub
                      @ [(DEBUG, ''DEM cutout saved: %s'')]"
    by (simp add: s6 l5 l4)
  obtain m7 where
    v7: "rasters16 s7 ?ns = Some raw" "rasters16 s7 ?nr = Some cut" "rasters16 s7 ?out = Some adjusted"
        "rasters16 s7 ?main = Some resized"
    and l7: "logged s7 = logged s6 @ m7"
  proof (cases "additional_dem_name cfg")
    case None
    with p7 have "s7 = s6" by simp
    then show ?thesis using that[of "[]"] f6 d by simp
  next
    case (Some n)
    with p7 have "make_copy q6 n s6 = Inr s7" by simp
    from make_copy_Inr[OF this] obtain img where
      s7: "s7 = logger DEBUG ''Additional DEM data was copied to %s.''
                     (s6\<lparr>rasters16 := (rasters16 s6)(path_join (dirname ?main) n \<mapsto> img)\<rparr>)"
      unfolding q6 ..
    from cp Some have ne: "path_join (dirname ?main) n \<noteq> ?out" "path_join (dirname ?main) n \<noteq> ?ns"
       "path_join (dirname ?main) n \<noteq> ?nr" "path_join (dirname ?main) n \<noteq> ?main" by auto
    show ?thesis
      using that[of "[(DEBUG, ''Additional DEM data was copied to %s.'')]"] f6 d ne
      by (simp add: s7)
  qed
  have k8: "keeps_rasters s7 s8"
    using p8 generate_obj_files_keeps[of cfg ext s7 s8] keeps_rasters_refl[of s7]
    by (auto split: if_splits)
  have k9: "keeps_rasters s8 s'"
    using p9 generate_water_resources_obj_keeps[of cfg ext s8 s'] keeps_rasters_refl[of s8]
    by (auto split: if_splits)
  from keeps_rasters_trans[OF k8 k9] obtain m9 where
    f9: "rasters16 s' = rasters16 s7" and l9: "logged s' = logged s7 @ m9"
    by (auto simp: keeps_rasters_def)
  have lf: "logged s' = logged s2 @ [(DEBUG, ''Not resized DEM saved: %s'')] @ sub
                      @ [(DEBUG, ''DEM cutout saved: %s'')] @ (m7 @ m9)"
    by (simp add: l9 l7 l6)
  show ?thesis
    using r2 raw cut[unfolded d4raw] v7[folded f9] z nz cut'[unfolded d6a] rs lf
    by blast
qed

text \<open>
  Claim C4 as stated fails in its last part: in this run the map's cutout is saved
  after the depth subtraction, not before it. The log has the entry of the subtraction
  before the one of the cutout, and the saved raster of the map holds the adjusted
  values (961 for the sample 1011), while \<open>not_resized\<close> holds the raw ones.
\<close>

theorem cutout_after_adjustment_counterexample:
  "logged_after (process water_run_config water_run_externals water_run_start) =
     Inr [(DEBUG, ''Found %s background textures.''),
      (DEBUG, ''Background texture saved: %s''),
      (DEBUG, ''Not resized DEM saved: %s''),
      (DEBUG, ''Water depth subtracted from DEM data: %s''),
      (DEBUG, ''DEM cutout saved: %s''),
      (DEBUG, ''Additional DEM data was copied to %s.''),
      (DEBUG, ''DEM file for found: %s''),
      (DEBUG, ''Generating obj file in path: %s''),
      (DEBUG, ''DEM data resized to shape: %s with factor: %s''),
      (DEBUG, ''Ground level: %s''),
      (DEBUG,
       ''Starting to generate a mesh for with shape: %s x %s. This may take a while.''),
      (DEBUG, ''Skipped faces: %s''), (DEBUG, ''Z scaling factor: %s''),
      (DEBUG, ''Mesh generated with %s faces.''),
      (DEBUG, ''Obj file saved: %s''), (DEBUG, ''STL file saved: %s'')]
   \<and> raster16_after (process water_run_config water_run_externals water_run_start)
       (not_resized_path water_run_config) = Inr (Some [[1011, 1012], [1021, 1022]])
   \<and> raster16_after (process water_run_config water_run_externals water_run_start)
       (main_dem_path water_run_config)
       = Inr (Some [[961, 961, 962], [961, 961, 962], [971, 971, 972]])"
  by code_simp

theorem process_order_witness:
  "\<not> isl (process water_run_config water_run_externals water_run_start)
   \<and> distinct [output_path water_run_config, not_substracted_path water_run_config, not_resized_path water_run_config, main_dem_path water_run_config]
   \<and> not_resized_path water_run_config \<noteq> []
   \<and> additional_dem_name water_run_config = Some ''unprocessedHeightMap.png''
   \<and> path_join (dirname (main_dem_path water_run_config)) ''unprocessedHeightMap.png'' \<notin> set [output_path water_run_config, not_substracted_path water_run_config, not_resized_path water_run_config, main_dem_path water_run_config]
   \<and> (\<exists>s2 raw cut adjusted cut' resized sub more.
       and_then (create_background_textures water_run_config water_run_externals water_run_start)
         (\<lambda>s. if \<not> truthy (custom_background_path water_run_config) then dem_process water_run_externals s else Inr s) = Inr s2
     \<and> rasters16 s2 (output_path water_run_config) = Some raw
     \<and> cut_out_np raw (map_size water_run_config div 2) False True = Inr cut
     \<and> rasters16 (projr (process water_run_config water_run_externals water_run_start)) (not_substracted_path water_run_config) = Some raw
     \<and> rasters16 (projr (process water_run_config water_run_externals water_run_start)) (not_resized_path water_run_config) = Some cut
     \<and> rasters16 (projr (process water_run_config water_run_externals water_run_start)) (output_path water_run_config) = Some adjusted
     \<and> (water_depth water_run_config = 0 \<longrightarrow> adjusted = raw \<and> sub = [])
     \<and> (water_depth water_run_config \<noteq> 0 \<longrightarrow>
           sub = [(DEBUG, ''Water depth subtracted from DEM data: %s'')]
         \<or> sub = [(WARNING, ''Water resources texture not found.'')] \<and> adjusted = raw)
     \<and> cut_out_np adjusted (map_size water_run_config div 2) False True = Inr cut'
     \<and> resize16 water_run_externals cut' (Dsize (map_size water_run_config + 1) (map_size water_run_config + 1)) = Inr resized
     \<and> rasters16 (projr (process water_run_config water_run_externals water_run_start)) (main_dem_path water_run_config) = Some resized
     \<and> logged (projr (process water_run_config water_run_externals water_run_start)) = logged s2 @ [(DEBUG, ''Not resized DEM saved: %s'')] @ sub
                      @ [(DEBUG, ''DEM cutout saved: %s'')] @ more)
   \<and> raster16_after (process water_run_config water_run_externals water_run_start) (not_substracted_path water_run_config) = Inr (Some example_dem)
   \<and> raster16_after (process water_run_config water_run_externals water_run_start) (output_path water_run_config)
       = Inr (Some [[950, 951, 952, 953], [960, 961, 962, 963],
                    [970, 971, 972, 973], [980, 981, 982, 983]])"
proof -
  have h0: "\<not> isl (process water_run_config water_run_externals water_run_start)" by code_simp
  have run: "(process water_run_config water_run_externals water_run_start) = Inr (projr (process water_run_config water_run_externals water_run_start))" using h0 by simp
  have dist: "distinct [output_path water_run_config, not_substracted_path water_run_config, not_resized_path water_run_config, main_dem_path water_run_config]" by code_simp
  have nr: "not_resized_path water_run_config \<noteq> []" by code_simp
  have an: "additional_dem_name water_run_config = Some ''unprocessedHeightMap.png''" by code_simp
  have ne: "path_join (dirname (main_dem_path water_run_config)) ''unprocessedHeightMap.png'' \<notin> set [output_path water_run_config, not_substracted_path water_run_config, not_resized_path water_run_config, main_dem_path water_run_config]"
    by code_simp
  have cp: "\<forall>n. additional_dem_name water_run_config = Some n \<longrightarrow>
               path_join (dirname (main_dem_path water_run_config)) n \<notin> set [output_path water_run_config, not_substracted_path water_run_config, not_resized_path water_run_config, main_dem_path water_run_config]"
    using ne unfolding an by blast
  have e1: "raster16_after (process water_run_config water_run_externals water_run_start) (not_substracted_path water_run_config) = Inr (Some example_dem)"
    by code_simp
  have e2: "raster16_after (process water_run_config water_run_externals water_run_start) (output_path water_run_config)
       = Inr (Some [[950, 951, 952, 953], [960, 961, 962, 963],
                    [970, 971, 972, 973], [980, 981, 982, 983]])"
    by code_simp
  note w = process_order[OF run dist nr cp]
  from h0 dist nr an ne w e1 e2 show ?thesis by (intro conjI)
qed

end
